theory Spec2Isabelle
  imports Main "HOL-Library.Word"
begin

section \<open>Basic types\<close>

text \<open>
  Addresses are 20 bytes, storage slots and stored words 32 bytes, stack items
  are 256-bit unsigned integers (\<open>uint256.Int\<close>).  A \<open>big.Int\<close> is an
  unbounded \<open>int\<close>, a \<open>uint64\<close> gas amount a \<open>nat\<close> below \<open>2 ^ 64\<close> with
  every overflow check of the source written out.
\<close>

type_synonym address = "160 word"
type_synonym hash = "256 word"
type_synonym uint256 = "256 word"
type_synonym byte = "8 word"
type_synonym bytes = "byte list"
type_synonym OpCode = "8 word"

datatype error =
    NetworkError
  | InsufficientElementsInStack
  | ErrStackUnderflow nat nat
  | ErrStackOverflow nat nat
  | ErrOutOfGas
  | ErrGasUintOverflow
  | ErrInsufficientBalance
  | ErrExecutionReverted
  | ErrInvalidOpCode
  | errStopToken
  | InsufficientBalanceToSimulate
  | CommitError
  | RuntimePanic
  | OutOfFuel

text \<open>
  \<open>InsufficientElementsInStack\<close> is the hooks' own
  \<open>errors.New("insufficient elements in stack")\<close>, \<open>ErrStackUnderflow\<close> the
  dispatch loop's validation error, \<open>InsufficientBalanceToSimulate\<close> the
  simulator's \<open>"insuficient balance to proceed with simulation"\<close>.
  \<open>RuntimePanic\<close> stands for a Go runtime panic (index out of range, nil
  dereference, \<open>MustFromBig\<close> overflow), which no caller in the repository
  recovers.  \<open>OutOfFuel\<close> is not an error of the program: it is the value of
  the bounded dispatch loop of this development when its step bound is used up.
\<close>

subsection \<open>Opcodes\<close>

definition STOP :: OpCode where "STOP = 0x00"
definition ADD :: OpCode where "ADD = 0x01"
definition CALLDATALOAD :: OpCode where "CALLDATALOAD = 0x35"
definition EXTCODESIZE :: OpCode where "EXTCODESIZE = 0x3b"
definition EXTCODECOPY :: OpCode where "EXTCODECOPY = 0x3c"
definition EXTCODEHASH :: OpCode where "EXTCODEHASH = 0x3f"
definition MSTORE :: OpCode where "MSTORE = 0x52"
definition SLOAD :: OpCode where "SLOAD = 0x54"
definition SSTORE :: OpCode where "SSTORE = 0x55"
definition PUSH0 :: OpCode where "PUSH0 = 0x5f"
definition PUSH1 :: OpCode where "PUSH1 = 0x60"
definition CALL :: OpCode where "CALL = 0xf1"
definition CALLCODE :: OpCode where "CALLCODE = 0xf2"
definition RETURN :: OpCode where "RETURN = 0xf3"
definition DELEGATECALL :: OpCode where "DELEGATECALL = 0xf4"
definition STATICCALL :: OpCode where "STATICCALL = 0xfa"

definition readStorage :: "OpCode \<Rightarrow> bool" where
  "readStorage op = (op = SLOAD)"

definition interactWithStorage :: "OpCode \<Rightarrow> bool" where
  "interactWithStorage op = (op = SLOAD \<or> op = SSTORE)"

definition isCall :: "OpCode \<Rightarrow> bool" where
  "isCall op = (op = CALL \<or> op = CALLCODE \<or> op = DELEGATECALL \<or> op = STATICCALL)"

definition isExtCode :: "OpCode \<Rightarrow> bool" where
  "isExtCode op = (op = EXTCODECOPY \<or> op = EXTCODEHASH \<or> op = EXTCODESIZE)"

section \<open>The state store\<close>

text \<open>
  Modelled from the spec: the State Store collaborator (go-ethereum's
  \<open>state.StateDB\<close>, not part of the repository's sources): get/set code,
  get/set balance, get/set storage slot, account existence check and creation,
  and a commit that returns a content-derived root which can be reopened as an
  independent working copy.  A store has the committed accounts of its root
  (\<open>trie\<close>), the live objects written since (\<open>objects\<close>), the EIP-2929 set of
  warm addresses and slots, and the refund counter.  Reads consult the live
  objects first.  An account that does not exist reads as empty code, zero
  balance and zero storage.
\<close>

record Account =
  acc_code :: bytes
  acc_balance :: uint256
  acc_storage :: "hash \<Rightarrow> hash"

type_synonym root = "address \<Rightarrow> Account option"

record StateDB =
  trie :: root
  objects :: "address \<Rightarrow> Account option"
  warmAddresses :: "address list"
  warmSlots :: "(address \<times> hash) list"
  refund :: nat

definition emptyAccount :: Account where
  "emptyAccount = \<lparr>acc_code = [], acc_balance = 0, acc_storage = (\<lambda>_. 0)\<rparr>"

definition EmptyRootHash :: root where
  "EmptyRootHash = (\<lambda>_. None)"

definition stateNew :: "root \<Rightarrow> error + StateDB" where
  "stateNew r = Inr \<lparr>trie = r, objects = (\<lambda>_. None), warmAddresses = [], warmSlots = [],
     refund = 0\<rparr>"

definition getStateObject :: "StateDB \<Rightarrow> address \<Rightarrow> Account option" where
  "getStateObject s a = (case objects s a of Some x \<Rightarrow> Some x | None \<Rightarrow> trie s a)"

definition getOrNewStateObject :: "StateDB \<Rightarrow> address \<Rightarrow> Account" where
  "getOrNewStateObject s a = (case getStateObject s a of Some x \<Rightarrow> x | None \<Rightarrow> emptyAccount)"

definition Exist :: "StateDB \<Rightarrow> address \<Rightarrow> bool" where
  "Exist s a = (getStateObject s a \<noteq> None)"

definition GetCode :: "StateDB \<Rightarrow> address \<Rightarrow> bytes" where
  "GetCode s a = (case getStateObject s a of Some x \<Rightarrow> acc_code x | None \<Rightarrow> [])"

definition GetCodeSize :: "StateDB \<Rightarrow> address \<Rightarrow> nat" where
  "GetCodeSize s a = length (GetCode s a)"

definition GetBalance :: "StateDB \<Rightarrow> address \<Rightarrow> uint256" where
  "GetBalance s a = (case getStateObject s a of Some x \<Rightarrow> acc_balance x | None \<Rightarrow> 0)"

definition GetState :: "StateDB \<Rightarrow> address \<Rightarrow> hash \<Rightarrow> hash" where
  "GetState s a k = (case getStateObject s a of Some x \<Rightarrow> acc_storage x k | None \<Rightarrow> 0)"

definition CreateAccount :: "StateDB \<Rightarrow> address \<Rightarrow> StateDB" where
  "CreateAccount s a = s\<lparr>objects := (objects s)(a := Some emptyAccount)\<rparr>"

definition SetCode :: "StateDB \<Rightarrow> address \<Rightarrow> bytes \<Rightarrow> StateDB" where
  "SetCode s a c = s\<lparr>objects := (objects s)(a := Some ((getOrNewStateObject s a)\<lparr>acc_code := c\<rparr>))\<rparr>"

definition SetBalance :: "StateDB \<Rightarrow> address \<Rightarrow> uint256 \<Rightarrow> StateDB" where
  "SetBalance s a b =
     s\<lparr>objects := (objects s)(a := Some ((getOrNewStateObject s a)\<lparr>acc_balance := b\<rparr>))\<rparr>"

definition AddBalance :: "StateDB \<Rightarrow> address \<Rightarrow> uint256 \<Rightarrow> StateDB" where
  "AddBalance s a d = SetBalance s a (GetBalance s a + d)"

definition SubBalance :: "StateDB \<Rightarrow> address \<Rightarrow> uint256 \<Rightarrow> StateDB" where
  "SubBalance s a d = SetBalance s a (GetBalance s a - d)"

definition SetState :: "StateDB \<Rightarrow> address \<Rightarrow> hash \<Rightarrow> hash \<Rightarrow> StateDB" where
  "SetState s a k v =
     s\<lparr>objects := (objects s)(a := Some ((getOrNewStateObject s a)
         \<lparr>acc_storage := (acc_storage (getOrNewStateObject s a))(k := v)\<rparr>))\<rparr>"

definition Commit :: "StateDB \<Rightarrow> error + root" where
  "Commit s = Inr (\<lambda>a. getStateObject s a)"

section \<open>The fork record and the interpreter's bookkeeping\<close>

text \<open>
  A Go \<open>map[K]struct{}\<close> is a list of its keys, a \<open>map[string]common.Hash\<close> an
  association list; iteration over the map is a fold over the list, in
  whatever order the list has.  The composite string key
  \<open>address.Hex() + ":" + slot.Hex()\<close> of the storage set is the pair it
  encodes (\<open>common.HexToAddress\<close> and \<open>common.HexToHash\<close> invert the two
  \<open>Hex\<close> renderings).
\<close>

record AccessTuple =
  Address :: address
  StorageKeys :: "hash list"

type_synonym AccessList = "AccessTuple list"

record RecordToInitiateState =
  AddressCodeSet :: "address list"
  AddressBalanceSet :: "address list"
  AddressStorageSet :: "((address \<times> hash) \<times> hash) list"
  AccessList :: AccessList

record EVMInterpreter =
  addressCodeSet :: "address list"
  addressBalanceSet :: "address list"
  addressStorageSet :: "((address \<times> hash) \<times> hash) list"
  addressSlotAccessListSet :: "(address \<times> hash) list"
  accessList :: AccessList

definition mapPut :: "'k \<Rightarrow> 'v \<Rightarrow> ('k \<times> 'v) list \<Rightarrow> ('k \<times> 'v) list" where
  "mapPut k v m = (if k \<in> fst ` set m then map (\<lambda>(k', v'). if k' = k then (k', v) else (k', v')) m
                   else m @ [(k, v)])"

definition setPut :: "'k \<Rightarrow> 'k list \<Rightarrow> 'k list" where
  "setPut k m = (if k \<in> set m then m else m @ [k])"

definition NewEVMInterpreter :: "RecordToInitiateState option \<Rightarrow> EVMInterpreter" where
  "NewEVMInterpreter record =
     (case record of
        Some r \<Rightarrow> \<lparr>addressCodeSet = AddressCodeSet r, addressBalanceSet = AddressBalanceSet r,
                   addressStorageSet = AddressStorageSet r, addressSlotAccessListSet = [],
                   accessList = []\<rparr>
      | None \<Rightarrow> \<lparr>addressCodeSet = [], addressBalanceSet = [], addressStorageSet = [],
                 addressSlotAccessListSet = [], accessList = []\<rparr>)"

definition MarkAddressCode :: "address \<Rightarrow> EVMInterpreter \<Rightarrow> EVMInterpreter" where
  "MarkAddressCode addr i = i\<lparr>addressCodeSet := setPut addr (addressCodeSet i)\<rparr>"

definition MarkAddressBalance :: "address \<Rightarrow> EVMInterpreter \<Rightarrow> EVMInterpreter" where
  "MarkAddressBalance addr i = i\<lparr>addressBalanceSet := setPut addr (addressBalanceSet i)\<rparr>"

definition GetRecordToInitState :: "EVMInterpreter \<Rightarrow> RecordToInitiateState" where
  "GetRecordToInitState i =
     \<lparr>AddressCodeSet = addressCodeSet i, AddressBalanceSet = addressBalanceSet i,
      AddressStorageSet = addressStorageSet i, AccessList = accessList i\<rparr>"

section \<open>The remote state source\<close>

text \<open>
  The JSON-RPC client answers a request or fails; which answer it gives is the
  remote node's business, so the client is a record of three functions.  The
  callers pass the block as the string \<open>"0x" + BlockNumber.Text(16)\<close> (or the
  empty string); the client replaces every string that does not parse to a
  positive number by \<open>"latest"\<close>.  Every invocation is appended to a log.
\<close>

datatype blockTag = Latest | BlockNumber int

datatype blkString = EmptyBlk | HexBlk int

fun resolveBlk :: "blkString \<Rightarrow> blockTag" where
  "resolveBlk EmptyBlk = Latest"
| "resolveBlk (HexBlk n) = (if n \<le> 0 then Latest else BlockNumber n)"

record rpcClient =
  eth_getCode :: "address \<Rightarrow> blockTag \<Rightarrow> error + bytes"
  eth_getStorageAt :: "address \<Rightarrow> hash \<Rightarrow> blockTag \<Rightarrow> error + hash"
  eth_getBalance :: "address \<Rightarrow> blockTag \<Rightarrow> error + int"

datatype fetch =
    FetchCode address blockTag
  | FetchStorage address hash blockTag
  | FetchBalance address blockTag

definition rpcGetCode :: "rpcClient \<Rightarrow> address \<Rightarrow> blkString \<Rightarrow> error + bytes" where
  "rpcGetCode c a blk = eth_getCode c a (resolveBlk blk)"

definition rpcGetStorageAt :: "rpcClient \<Rightarrow> address \<Rightarrow> hash \<Rightarrow> blkString \<Rightarrow> error + hash" where
  "rpcGetStorageAt c a k blk = eth_getStorageAt c a k (resolveBlk blk)"

definition rpcGetBalance :: "rpcClient \<Rightarrow> address \<Rightarrow> blkString \<Rightarrow> error + int" where
  "rpcGetBalance c a blk = eth_getBalance c a (resolveBlk blk)"

definition MustFromBig :: "int \<Rightarrow> error + uint256" where
  "MustFromBig b = (if \<bar>b\<bar> < 2 ^ 256 then Inr (word_of_int b) else Inl RuntimePanic)"

section \<open>The pre-dispatch hooks\<close>

text \<open>
  The hooks work on the interpreter, the state store of its EVM and the remote
  client; the three travel together as \<open>world\<close>, with the log of remote
  invocations.  A stack is the Go slice: the top of the stack is the last
  element, \<open>stackTmp[len(stackTmp)-2]\<close> is \<open>stk ! (length stk - 2)\<close>.
\<close>

record world =
  StateDB :: StateDB
  interp :: EVMInterpreter
  fetches :: "fetch list"

type_synonym Stack = "uint256 list"

definition Bytes20 :: "uint256 \<Rightarrow> address" where
  "Bytes20 x = ucast x"

text \<open>
  Modelled from the spec: \<open>Stack.peek\<close> of the repository's \<open>vm\<close> package
  (\<open>stack.go\<close> is not among the sources): it inspects, without consuming, the
  top of the stack, \<open>st.data[st.len()-1]\<close>; on an empty stack the index is out
  of range and Go panics.
\<close>

definition peek :: "Stack \<Rightarrow> error + uint256" where
  "peek stk = (if stk = [] then Inl RuntimePanic else Inr (last stk))"

definition logFetch :: "fetch \<Rightarrow> world \<Rightarrow> world" where
  "logFetch f w = w\<lparr>fetches := fetches w @ [f]\<rparr>"

definition installCode :: "address \<Rightarrow> bytes \<Rightarrow> world \<Rightarrow> world" where
  "installCode addr code w =
     (let s1 = (if \<not> Exist (StateDB w) addr then CreateAccount (StateDB w) addr else StateDB w);
          s2 = SetCode s1 addr code
      in w\<lparr>StateDB := s2, interp := MarkAddressCode addr (interp w)\<rparr>)"

definition registerAddressCodeForCalls ::
  "rpcClient \<Rightarrow> OpCode \<Rightarrow> Stack \<Rightarrow> blkString \<Rightarrow> world \<Rightarrow> error option \<times> world" where
  "registerAddressCodeForCalls rpcClt op stk blk w =
     (if length stk < 3 then (Some InsufficientElementsInStack, w)
      else
        let addr = Bytes20 (stk ! (length stk - 2)) in
        if addr \<in> set (addressCodeSet (interp w)) then (None, w)
        else
          let w0 = logFetch (FetchCode addr (resolveBlk blk)) w in
          case rpcGetCode rpcClt addr blk of
            Inl err \<Rightarrow> (Some err, w0)
          | Inr code \<Rightarrow>
              let w1 = installCode addr code w0 in
              if op = CALL \<or> op = CALLCODE then
                let value = stk ! (length stk - 3);
                    currrentStateBalance = GetBalance (StateDB w1) addr;
                    balanceSetOnce = (addr \<in> set (addressBalanceSet (interp w1)))
                in
                if currrentStateBalance < value \<and> \<not> balanceSetOnce then
                  let w2 = logFetch (FetchBalance addr (resolveBlk blk)) w1 in
                  case rpcGetBalance rpcClt addr blk of
                    Inl err \<Rightarrow> (Some err, w2)
                  | Inr balanceBig \<Rightarrow>
                      (case MustFromBig balanceBig of
                         Inl p \<Rightarrow> (Some p, w2)
                       | Inr balance \<Rightarrow>
                           if value \<le> balance then
                             let diff = balance - currrentStateBalance in
                             (None, w2\<lparr>StateDB := AddBalance (StateDB w2) addr diff,
                                       interp := MarkAddressBalance addr (interp w2)\<rparr>)
                           else (None, w2))
                else (None, w1)
              else (None, w1))"

definition registerAddressStorage ::
  "rpcClient \<Rightarrow> OpCode \<Rightarrow> address \<Rightarrow> Stack \<Rightarrow> blkString \<Rightarrow> world \<Rightarrow> error option \<times> world" where
  "registerAddressStorage rpcClt op self stk blk w =
     (if length stk < 1 then (Some InsufficientElementsInStack, w)
      else
        case peek stk of
          Inl p \<Rightarrow> (Some p, w)
        | Inr loc \<Rightarrow>
            let hash = loc; key = (self, hash) in
            if key \<in> fst ` set (addressStorageSet (interp w)) then (None, w)
            else
              let w0 = logFetch (FetchStorage self hash (resolveBlk blk)) w in
              case rpcGetStorageAt rpcClt self hash blk of
                Inl err \<Rightarrow> (Some err, w0)
              | Inr storage \<Rightarrow>
                  (None, w0\<lparr>StateDB := SetState (StateDB w0) self hash storage,
                            interp := (interp w0)\<lparr>addressStorageSet :=
                               mapPut key storage (addressStorageSet (interp w0))\<rparr>\<rparr>))"

definition registerAddressCodeForExt ::
  "rpcClient \<Rightarrow> OpCode \<Rightarrow> Stack \<Rightarrow> blkString \<Rightarrow> world \<Rightarrow> error option \<times> world" where
  "registerAddressCodeForExt rpcClt op stk blk w =
     (if length stk < 1 then (Some InsufficientElementsInStack, w)
      else
        let addr = Bytes20 (stk ! (length stk - 1)) in
        if addr \<in> set (addressCodeSet (interp w)) then (None, w)
        else
          let w0 = logFetch (FetchCode addr (resolveBlk blk)) w in
          case rpcGetCode rpcClt addr blk of
            Inl err \<Rightarrow> (Some err, w0)
          | Inr code \<Rightarrow> (None, installCode addr code w0))"

subsection \<open>The access list\<close>

text \<open>
  The loop of \<open>appendToAccessList\<close> over the entries, with its \<open>break\<close>: the
  first entry of the address gets the slot appended; the flag says whether
  there was one.
\<close>

fun appendSlot :: "address \<Rightarrow> hash \<Rightarrow> AccessList \<Rightarrow> bool \<times> AccessList" where
  "appendSlot a slot [] = (False, [])"
| "appendSlot a slot (l # ls) =
     (if Address l = a then (True, l\<lparr>StorageKeys := StorageKeys l @ [slot]\<rparr> # ls)
      else (fst (appendSlot a slot ls), l # snd (appendSlot a slot ls)))"

definition appendToAccessList ::
  "OpCode \<Rightarrow> address \<Rightarrow> Stack \<Rightarrow> EVMInterpreter \<Rightarrow> error + EVMInterpreter" where
  "appendToAccessList op self stk i =
     (case peek stk of
        Inl p \<Rightarrow> Inl p
      | Inr loc \<Rightarrow>
          let slot = loc; key = (self, slot) in
          if key \<in> set (addressSlotAccessListSet i) then Inr i
          else
            let (addressInitialized, al) = appendSlot self slot (accessList i);
                al' = (if \<not> addressInitialized
                       then al @ [\<lparr>Address = self, StorageKeys = [slot]\<rparr>] else al)
            in Inr (i\<lparr>accessList := al',
                      addressSlotAccessListSet := setPut key (addressSlotAccessListSet i)\<rparr>))"

section \<open>The ideal-state reconstructor\<close>

definition InitIdealState :: "StateDB \<Rightarrow> RecordToInitiateState option \<Rightarrow> error + StateDB" where
  "InitIdealState originState record =
     (case stateNew EmptyRootHash of
        Inl err \<Rightarrow> Inl err
      | Inr tmp \<Rightarrow>
          (case record of
             None \<Rightarrow> Inl RuntimePanic
           | Some r \<Rightarrow>
               let tmp1 = fold (\<lambda>acc t. SetCode (CreateAccount t acc) acc (GetCode originState acc))
                               (AddressCodeSet r) tmp;
                   tmp2 = fold (\<lambda>acc t. SetBalance t acc (GetBalance originState acc))
                               (AddressBalanceSet r) tmp1;
                   tmp3 = fold (\<lambda>((acc, slot), value) t. SetState t acc slot value)
                               (AddressStorageSet r) tmp2
               in (case Commit tmp3 of
                     Inl err \<Rightarrow> Inl CommitError
                   | Inr root \<Rightarrow> stateNew root)))"


section \<open>The dispatch loop\<close>

text \<open>
  Modelled from the spec: the opcode-execution collaborator.  The jump tables,
  the instruction and gas functions, the stack, the memory and the contract
  object of the repository's \<open>vm\<close> package are not among the sources; the
  dispatch loop uses them through the fields of an \<open>operation\<close>.  An
  operation executes on the scope of the call (stack, memory, contract), the
  program counter and the state store; its dynamic gas function may write the
  memory's gas bookkeeping and the state store (warm set, refund).  The table
  and the precompiled contracts are parameters of everything that follows.
  Frames nested below the top one (the body of a CALL) belong to the
  collaborator as well; the hooks they dispatch are not part of this model of
  \<open>Run\<close>.
\<close>

record Memory =
  store :: bytes
  lastGasCost :: nat

record Contract =
  CallerAddress :: address
  contractAddress :: address
  Code :: bytes
  Input :: bytes
  Gas :: nat
  callValue :: uint256

record ScopeContext =
  memory :: Memory
  stack :: Stack
  contract :: Contract

record operation =
  execute :: "nat \<Rightarrow> ScopeContext \<Rightarrow> StateDB \<Rightarrow>
              (bytes \<times> error option) \<times> nat \<times> ScopeContext \<times> StateDB"
  constantGas :: nat
  minStack :: nat
  maxStack :: nat
  dynamicGas :: "(Contract \<Rightarrow> Stack \<Rightarrow> Memory \<Rightarrow> nat \<Rightarrow> StateDB \<Rightarrow>
                   (error + nat) \<times> Memory \<times> StateDB) option"
  memorySize :: "(Stack \<Rightarrow> nat \<times> bool) option"

type_synonym JumpTable = "OpCode \<Rightarrow> operation"

type_synonym PrecompiledContract = "bytes \<Rightarrow> nat \<Rightarrow> bytes \<times> nat \<times> error option"

record opcodeExecution =
  table :: JumpTable
  precompiles :: "(address \<times> PrecompiledContract) list"

definition MaxUint64 :: nat where
  "MaxUint64 = 2 ^ 64 - 1"

definition GetOp :: "Contract \<Rightarrow> nat \<Rightarrow> OpCode" where
  "GetOp c n = (if n < length (Code c) then Code c ! n else STOP)"

definition UseGas :: "Contract \<Rightarrow> nat \<Rightarrow> Contract option" where
  "UseGas c gas = (if Gas c < gas then None else Some (c\<lparr>Gas := Gas c - gas\<rparr>))"

definition toWordSize :: "nat \<Rightarrow> nat" where
  "toWordSize sz = (if sz > MaxUint64 - 31 then MaxUint64 div 32 + 1 else (sz + 31) div 32)"

definition SafeMul :: "nat \<Rightarrow> nat \<Rightarrow> nat \<times> bool" where
  "SafeMul x y = ((x * y) mod 2 ^ 64, x * y > MaxUint64)"

definition Resize :: "Memory \<Rightarrow> nat \<Rightarrow> Memory" where
  "Resize m sz =
     (if length (store m) < sz
      then m\<lparr>store := store m @ replicate (sz - length (store m)) 0\<rparr> else m)"

text \<open>
  The pre-dispatch part of one iteration of the loop of \<open>Run\<close>: the
  \<open>switch\<close> over the three fetch hooks, then the access-list hook.
\<close>

definition preDispatch ::
  "rpcClient \<Rightarrow> blkString \<Rightarrow> OpCode \<Rightarrow> ScopeContext \<Rightarrow> world \<Rightarrow> error option \<times> world" where
  "preDispatch rpcClt blk op scope w =
     (let (err, w1) =
            (if readStorage op
             then registerAddressStorage rpcClt op (contractAddress (contract scope)) (stack scope) blk w
             else if isCall op then registerAddressCodeForCalls rpcClt op (stack scope) blk w
             else if isExtCode op then registerAddressCodeForExt rpcClt op (stack scope) blk w
             else (None, w))
      in case err of
           Some e \<Rightarrow> (Some e, w1)
         | None \<Rightarrow>
             if interactWithStorage op
             then (case appendToAccessList op (contractAddress (contract scope)) (stack scope) (interp w1) of
                     Inl p \<Rightarrow> (Some p, w1)
                   | Inr i \<Rightarrow> (None, w1\<lparr>interp := i\<rparr>))
             else (None, w1))"

text \<open>
  The dynamic part of the gas of an operation: the memory size, rounded up to
  words, the dynamic gas function, and the expansion of the memory.  An error
  of the gas function is wrapped into \<open>ErrOutOfGas\<close>; a panic stays a panic.
\<close>

definition chargeDynamic ::
  "operation \<Rightarrow> ScopeContext \<Rightarrow> StateDB \<Rightarrow> (error + ScopeContext) \<times> StateDB" where
  "chargeDynamic operation scope s =
     (case dynamicGas operation of
        None \<Rightarrow> (Inr scope, s)
      | Some dyn \<Rightarrow>
          (case (case memorySize operation of
                   None \<Rightarrow> Inr 0
                 | Some msz \<Rightarrow>
                     if snd (msz (stack scope)) then Inl ErrGasUintOverflow
                     else if snd (SafeMul (toWordSize (fst (msz (stack scope)))) 32)
                     then Inl ErrGasUintOverflow
                     else Inr (fst (SafeMul (toWordSize (fst (msz (stack scope)))) 32))) of
             Inl e \<Rightarrow> (Inl e, s)
           | Inr memSize \<Rightarrow>
               (case dyn (contract scope) (stack scope) (memory scope) memSize s of
                  (Inl e, mem', s') \<Rightarrow>
                    (Inl (if e = RuntimePanic then RuntimePanic else ErrOutOfGas), s')
                | (Inr dynamicCost, mem', s') \<Rightarrow>
                    (case UseGas (contract scope) dynamicCost of
                       None \<Rightarrow> (Inl ErrOutOfGas, s')
                     | Some c' \<Rightarrow>
                         (Inr (scope\<lparr>contract := c',
                                 memory := (if memSize > 0 then Resize mem' memSize else mem')\<rparr>),
                          s')))))"

datatype step = Halt "bytes \<times> error option" Contract world | Continue nat ScopeContext world

text \<open>
  One iteration of the loop of \<open>Run\<close>: \<open>dispatch\<close> reads the opcode at
  the program counter, \<open>dispatchOp\<close> is the rest of the iteration.
\<close>

definition dispatchOp ::
  "JumpTable \<Rightarrow> rpcClient \<Rightarrow> blkString \<Rightarrow> OpCode \<Rightarrow> nat \<Rightarrow> ScopeContext \<Rightarrow> world \<Rightarrow> step" where
  "dispatchOp tbl rpcClt blk op pc scope w =
     (case preDispatch rpcClt blk op scope w of
        (Some err, w1) \<Rightarrow> Halt ([], Some err) (contract scope) w1
      | (None, w1) \<Rightarrow>
          let operation = tbl op; cost = constantGas operation; sLen = length (stack scope) in
          if sLen < minStack operation
          then Halt ([], Some (ErrStackUnderflow sLen (minStack operation))) (contract scope) w1
          else if sLen > maxStack operation
          then Halt ([], Some (ErrStackOverflow sLen (maxStack operation))) (contract scope) w1
          else
            (case UseGas (contract scope) cost of
               None \<Rightarrow> Halt ([], Some ErrOutOfGas) (contract scope) w1
             | Some c1 \<Rightarrow>
                 (case chargeDynamic operation (scope\<lparr>contract := c1\<rparr>) (StateDB w1) of
                    (Inl err, s2) \<Rightarrow> Halt ([], Some err) c1 (w1\<lparr>StateDB := s2\<rparr>)
                  | (Inr scope2, s2) \<Rightarrow>
                      (case execute operation pc scope2 s2 of
                         ((res, Some err), pc3, scope3, s3) \<Rightarrow>
                           Halt (res, if err = errStopToken then None else Some err)
                             (contract scope3) (w1\<lparr>StateDB := s3\<rparr>)
                       | ((res, None), pc3, scope3, s3) \<Rightarrow>
                           Continue (pc3 + 1) scope3 (w1\<lparr>StateDB := s3\<rparr>)))))"

definition dispatch ::
  "JumpTable \<Rightarrow> rpcClient \<Rightarrow> blkString \<Rightarrow> nat \<Rightarrow> ScopeContext \<Rightarrow> world \<Rightarrow> step" where
  "dispatch tbl rpcClt blk pc scope w =
     dispatchOp tbl rpcClt blk (GetOp (contract scope) pc) pc scope w"

text \<open>
  The loop runs until an operation stops it.  Nothing in the loop itself
  bounds the number of iterations (the gas of the operations does, and the
  operations are a parameter here), so the loop takes a bound on its
  iterations and answers \<open>OutOfFuel\<close> when the bound is used up.
\<close>

fun runLoop ::
  "nat \<Rightarrow> JumpTable \<Rightarrow> rpcClient \<Rightarrow> blkString \<Rightarrow> nat \<Rightarrow> ScopeContext \<Rightarrow> world \<Rightarrow>
   (bytes \<times> error option) \<times> Contract \<times> world" where
  "runLoop 0 tbl rpcClt blk pc scope w = (([], Some OutOfFuel), contract scope, w)"
| "runLoop (Suc n) tbl rpcClt blk pc scope w =
     (case dispatch tbl rpcClt blk pc scope w of
        Halt r c' w' \<Rightarrow> (r, c', w')
      | Continue pc' scope' w' \<Rightarrow> runLoop n tbl rpcClt blk pc' scope' w')"

definition Run ::
  "nat \<Rightarrow> JumpTable \<Rightarrow> rpcClient \<Rightarrow> blkString \<Rightarrow> Contract \<Rightarrow> bytes \<Rightarrow> world \<Rightarrow>
   (bytes \<times> error option) \<times> Contract \<times> world" where
  "Run fuel tbl rpcClt blk c input w =
     (if length (Code c) = 0 then (([], None), c, w)
      else runLoop fuel tbl rpcClt blk 0
             \<lparr>memory = \<lparr>store = [], lastGasCost = 0\<rparr>, stack = [],
              contract = c\<lparr>Input := input\<rparr>\<rparr> w)"


section \<open>The EVM call and the runtime\<close>

text \<open>
  Modelled from the spec: \<open>EVM.Call\<close> of the repository's \<open>vm\<close> package
  (\<open>evm.go\<close> is not among the sources), with the standard EVM rules of a
  message call: the balance check of the caller, the snapshot, the creation
  of a missing target (no creation for a zero-value call to a missing
  account that is not precompiled), the transfer, the run of the target's
  code as stored in the state, and on an error the revert to the snapshot,
  which burns the remaining gas unless the error is a REVERT.  The top frame
  is the only frame here, so the depth limit is never reached.
\<close>

definition CanTransfer :: "StateDB \<Rightarrow> address \<Rightarrow> uint256 \<Rightarrow> bool" where
  "CanTransfer s a amount = (amount \<le> GetBalance s a)"

definition Transfer :: "StateDB \<Rightarrow> address \<Rightarrow> address \<Rightarrow> uint256 \<Rightarrow> StateDB" where
  "Transfer s sender recipient amount = AddBalance (SubBalance s sender amount) recipient amount"

definition Call ::
  "opcodeExecution \<Rightarrow> rpcClient \<Rightarrow> nat \<Rightarrow> blkString \<Rightarrow> address \<Rightarrow> address \<Rightarrow> bytes \<Rightarrow> nat \<Rightarrow>
   uint256 \<Rightarrow> world \<Rightarrow> (bytes \<times> nat \<times> error option) \<times> world" where
  "Call vm rpcClt fuel blk caller addr input gas value w =
     (if value \<noteq> 0 \<and> \<not> CanTransfer (StateDB w) caller value
      then (([], gas, Some ErrInsufficientBalance), w)
      else
        let snapshot = StateDB w;
            p = map_of (precompiles vm) addr
        in
        if \<not> Exist (StateDB w) addr \<and> p = None \<and> value = 0 then (([], gas, None), w)
        else
          let s1 = (if \<not> Exist (StateDB w) addr then CreateAccount (StateDB w) addr else StateDB w);
              s2 = Transfer s1 caller addr value;
              w2 = w\<lparr>StateDB := s2\<rparr>;
              ((ret, err), gas', w3) =
                (case p of
                   Some run \<Rightarrow> ((fst (run input gas), snd (snd (run input gas))),
                                 fst (snd (run input gas)), w2)
                 | None \<Rightarrow>
                     let code = GetCode s2 addr in
                     if length code = 0 then (([], None), gas, w2)
                     else
                       (case Run fuel (table vm) rpcClt blk
                               \<lparr>CallerAddress = caller, contractAddress = addr, Code = code, Input = [],
                                Gas = gas, callValue = value\<rparr> input w2 of
                          (r, c, w') \<Rightarrow> (r, Gas c, w')))
          in case err of
               None \<Rightarrow> ((ret, gas', None), w3)
             | Some e \<Rightarrow>
                 ((ret, if e \<noteq> ErrExecutionReverted then 0 else gas', Some e),
                  w3\<lparr>StateDB := snapshot\<rparr>))"

text \<open>
  Modelled from the spec: \<open>StateDB.Prepare\<close> and \<open>core.IntrinsicGas\<close> of
  go-ethereum under the rules of the default chain configuration of
  \<open>SetDefaults\<close> (every fork up to Cancun active from block 0): EIP-2929 and
  EIP-2930.  At the start of a transaction the warm set is exactly the
  sender, the destination, the precompiled contracts, the coinbase and the
  addresses and slots of the transaction's access list; the access list is
  paid for in the intrinsic gas, per address and per slot.
\<close>

definition TxGas :: nat where "TxGas = 21000"
definition TxDataNonZeroGasEIP2028 :: nat where "TxDataNonZeroGasEIP2028 = 16"
definition TxDataZeroGas :: nat where "TxDataZeroGas = 4"
definition TxAccessListAddressGas :: nat where "TxAccessListAddressGas = 2400"
definition TxAccessListStorageKeyGas :: nat where "TxAccessListStorageKeyGas = 1900"

definition Prepare ::
  "StateDB \<Rightarrow> address \<Rightarrow> address \<Rightarrow> address \<Rightarrow> address list \<Rightarrow> AccessList \<Rightarrow> StateDB" where
  "Prepare s sender coinbase dst precompiled list =
     s\<lparr>warmAddresses := fold setPut ([sender, dst] @ precompiled @ map Address list @ [coinbase]) [],
       warmSlots := fold setPut (concat (map (\<lambda>el. map (\<lambda>k. (Address el, k)) (StorageKeys el)) list)) []\<rparr>"

definition IntrinsicGas :: "bytes \<Rightarrow> AccessList \<Rightarrow> error + nat" where
  "IntrinsicGas data list =
     (let gas = TxGas;
          nz = length (filter (\<lambda>b. b \<noteq> 0) data);
          z = length data - nz
      in if (MaxUint64 - gas) div TxDataNonZeroGasEIP2028 < nz then Inl ErrGasUintOverflow
         else
           let gas1 = gas + nz * TxDataNonZeroGasEIP2028 in
           if (MaxUint64 - gas1) div TxDataZeroGas < z then Inl ErrGasUintOverflow
           else
             let gas2 = gas1 + z * TxDataZeroGas in
             Inr ((gas2 + length list * TxAccessListAddressGas
                   + length (concat (map StorageKeys list)) * TxAccessListStorageKeyGas)
                  mod 2 ^ 64))"

record Config =
  Origin :: address
  Coinbase :: address
  cfgBlockNumber :: int
  cfgGasLimit :: nat
  cfgGasPrice :: int
  cfgValue :: int

record ExecutionResult =
  Ret :: bytes
  execGasUsed :: nat
  Refund :: nat
  IntrinsicGasUsed :: nat
  execRecord :: RecordToInitiateState

text \<open>
  \<open>Execute\<close> of the runtime package.  The state store is the caller's object
  and is written in place: the function returns it with its result.  The
  environment of \<open>NewEnv\<close> (not among the sources) is the EVM over that
  store with the interpreter \<open>NewEVMInterpreter\<close> makes of the record, at the
  block number of the configuration.  \<open>SetDefaults\<close> replaces a zero gas
  limit by the largest \<open>uint64\<close>.
\<close>

definition SetDefaults :: "Config \<Rightarrow> Config" where
  "SetDefaults cfg = (if cfgGasLimit cfg = 0 then cfg\<lparr>cfgGasLimit := MaxUint64\<rparr> else cfg)"

definition Execute ::
  "opcodeExecution \<Rightarrow> rpcClient \<Rightarrow> nat \<Rightarrow> address \<Rightarrow> int \<Rightarrow> bytes \<Rightarrow> bytes \<Rightarrow> Config \<Rightarrow>
   StateDB \<Rightarrow> RecordToInitiateState option \<Rightarrow> fetch list \<Rightarrow>
   (error + ExecutionResult) \<times> StateDB \<times> fetch list" where
  "Execute vm rpcClt fuel address originBalance code input cfg0 state recordToInit log =
     (let cfg = SetDefaults cfg0;
          in0 = NewEVMInterpreter recordToInit;
          sender = Origin cfg;
          st1 = (if trie state (Origin cfg) = None then CreateAccount state (Origin cfg) else state)
      in
      case (if originBalance > 0
            then (case MustFromBig originBalance of
                    Inl p \<Rightarrow> Inl p
                  | Inr balance \<Rightarrow>
                      Inr (SetBalance (SetBalance st1 (Origin cfg) balance) sender balance,
                           MarkAddressBalance (Origin cfg) in0))
            else Inr (st1, in0)) of
        Inl p \<Rightarrow> (Inl p, st1, log)
      | Inr (st2, in2) \<Rightarrow>
          let accessList = (case recordToInit of Some r \<Rightarrow> AccessList r | None \<Rightarrow> []);
              st3 = Prepare st2 (Origin cfg) (Coinbase cfg) address (map fst (precompiles vm))
                      accessList;
              (st4, in4) = (if \<not> Exist st3 address
                            then (SetCode (CreateAccount st3 address) address code,
                                  MarkAddressCode address in2)
                            else (st3, in2))
          in
          (case MustFromBig (cfgValue cfg) of
             Inl p \<Rightarrow> (Inl p, st4, log)
           | Inr value \<Rightarrow>
               (case Call vm rpcClt fuel (HexBlk (cfgBlockNumber cfg)) sender address input
                       (cfgGasLimit cfg) value \<lparr>StateDB = st4, interp = in4, fetches = log\<rparr> of
                  ((ret, leftOverGas, Some err), w) \<Rightarrow> (Inl err, StateDB w, fetches w)
                | ((ret, leftOverGas, None), w) \<Rightarrow>
                    let inRecord = GetRecordToInitState (interp w) in
                    (case IntrinsicGas input (AccessList inRecord) of
                       Inl err \<Rightarrow> (Inl err, StateDB w, fetches w)
                     | Inr intrinsicGas \<Rightarrow>
                         let refund' = refund (StateDB w);
                             gasUsed = nat ((int (cfgGasLimit cfg) - int leftOverGas
                                        + int intrinsicGas - int refund') mod 2 ^ 64)
                         in (Inr \<lparr>Ret = ret, execGasUsed = gasUsed, Refund = refund',
                                  IntrinsicGasUsed = intrinsicGas, execRecord = inRecord\<rparr>,
                             StateDB w, fetches w)))))"

section \<open>The simulator\<close>

record Simulation =
  From :: address
  To :: address
  simBlockNumber :: int
  GasLimit :: nat
  GasPrice :: int
  Value :: int
  simInput :: bytes
  simCode :: bytes

record SimulationResult =
  ReturnedData :: bytes
  GasUsed :: nat
  resGasLimit :: nat
  Record :: RecordToInitiateState

definition ConfigFromSimulation :: "Simulation \<Rightarrow> Config" where
  "ConfigFromSimulation simulation =
     \<lparr>Origin = From simulation, Coinbase = 0, cfgBlockNumber = simBlockNumber simulation,
      cfgGasLimit = GasLimit simulation, cfgGasPrice = GasPrice simulation,
      cfgValue = Value simulation\<rparr>"

definition simBlk :: "Simulation \<Rightarrow> blkString" where
  "simBlk simulation =
     (if simBlockNumber simulation > 0 then HexBlk (simBlockNumber simulation) else EmptyBlk)"

text \<open>
  The first step of both simulation functions: the code to run is the
  simulation's, or else the state's, or else, when the state has none for the
  target, the remote node's.
\<close>

definition resolveCode ::
  "rpcClient \<Rightarrow> Simulation \<Rightarrow> StateDB \<Rightarrow> fetch list \<Rightarrow> (error + bytes) \<times> fetch list" where
  "resolveCode rpcClt simulation stateDB log =
     (if length (simCode simulation) = 0 \<and> GetCodeSize stateDB (To simulation) = 0
      then (rpcGetCode rpcClt (To simulation) (simBlk simulation),
            log @ [FetchCode (To simulation) (resolveBlk (simBlk simulation))])
      else if length (simCode simulation) = 0 then (Inr (GetCode stateDB (To simulation)), log)
      else (Inr (simCode simulation), log))"

text \<open>
  The record handed to the first pass: the three sets of the caller's record,
  the access list left out.
\<close>

definition withoutAccessList :: "RecordToInitiateState option \<Rightarrow> RecordToInitiateState option" where
  "withoutAccessList recordInitializer =
     (case recordInitializer of
        None \<Rightarrow> None
      | Some r \<Rightarrow> Some \<lparr>AddressCodeSet = AddressCodeSet r, AddressBalanceSet = AddressBalanceSet r,
                         AddressStorageSet = AddressStorageSet r, AccessList = []\<rparr>)"

definition copyRecord :: "RecordToInitiateState \<Rightarrow> RecordToInitiateState" where
  "copyRecord r = \<lparr>AddressCodeSet = AddressCodeSet r, AddressBalanceSet = AddressBalanceSet r,
                   AddressStorageSet = AddressStorageSet r, AccessList = AccessList r\<rparr>"

text \<open>
  \<open>Simulate\<close>.  The caller's state store is written in place by the first
  pass; the second pass runs on the reconstructed store, which the caller
  never sees.  The function returns its result, the caller's store and the
  log of remote invocations.
\<close>

definition Simulate ::
  "opcodeExecution \<Rightarrow> rpcClient \<Rightarrow> nat \<Rightarrow> Simulation \<Rightarrow> StateDB \<Rightarrow>
   RecordToInitiateState option \<Rightarrow> fetch list \<Rightarrow>
   (error + SimulationResult) \<times> StateDB \<times> fetch list" where
  "Simulate vm rpcClt fuel simulation stateDB recordInitializer log =
     (let cfg = ConfigFromSimulation simulation; blk = simBlk simulation in
      case resolveCode rpcClt simulation stateDB log of
        (Inl err, log1) \<Rightarrow> (Inl err, stateDB, log1)
      | (Inr code, log1) \<Rightarrow>
          (case (if Value simulation > 0 \<and> GetBalance stateDB (From simulation) \<le> 0
                 then (case rpcGetBalance rpcClt (From simulation) blk of
                         Inl err \<Rightarrow> Inl err
                       | Inr balance \<Rightarrow>
                           if balance \<le> Value simulation then Inl InsufficientBalanceToSimulate
                           else Inr balance,
                       log1 @ [FetchBalance (From simulation) (resolveBlk blk)])
                 else (Inr 0, log1)) of
             (Inl err, log2) \<Rightarrow> (Inl err, stateDB, log2)
           | (Inr balance, log2) \<Rightarrow>
               (case Execute vm rpcClt fuel (To simulation) balance code (simInput simulation) cfg
                       stateDB (withoutAccessList recordInitializer) log2 of
                  (Inl err, stateDB1, log3) \<Rightarrow> (Inl err, stateDB1, log3)
                | (Inr result, stateDB1, log3) \<Rightarrow>
                    (case InitIdealState stateDB1 (Some (execRecord result)) of
                       Inl err \<Rightarrow> (Inl err, stateDB1, log3)
                     | Inr ideal \<Rightarrow>
                         (case Execute vm rpcClt fuel (To simulation) balance code
                                 (simInput simulation) cfg ideal
                                 (Some (copyRecord (execRecord result))) log3 of
                            (Inl err, ideal', log4) \<Rightarrow> (Inl err, stateDB1, log4)
                          | (Inr result2, ideal', log4) \<Rightarrow>
                              (Inr \<lparr>ReturnedData = Ret result2, GasUsed = execGasUsed result2,
                                    resGasLimit = 0, Record = execRecord result2\<rparr>,
                               stateDB1, log4))))))"

definition unoptimalSimulation ::
  "opcodeExecution \<Rightarrow> rpcClient \<Rightarrow> nat \<Rightarrow> Simulation \<Rightarrow> StateDB \<Rightarrow>
   RecordToInitiateState option \<Rightarrow> fetch list \<Rightarrow>
   (error + SimulationResult) \<times> StateDB \<times> fetch list" where
  "unoptimalSimulation vm rpcClt fuel simulation stateDB recordInitializer log =
     (let cfg = ConfigFromSimulation simulation; blk = simBlk simulation in
      case resolveCode rpcClt simulation stateDB log of
        (Inl err, log1) \<Rightarrow> (Inl err, stateDB, log1)
      | (Inr code, log1) \<Rightarrow>
          (case (if Value simulation > 0 \<and> uint (GetBalance stateDB (From simulation)) \<le> 0
                 then (rpcGetBalance rpcClt (From simulation) blk,
                       log1 @ [FetchBalance (From simulation) (resolveBlk blk)])
                 else (Inr (uint (GetBalance stateDB (From simulation))), log1)) of
             (Inl err, log2) \<Rightarrow> (Inl err, stateDB, log2)
           | (Inr balance, log2) \<Rightarrow>
               if balance < Value simulation then (Inl InsufficientBalanceToSimulate, stateDB, log2)
               else
                 (case Execute vm rpcClt fuel (To simulation) balance code (simInput simulation)
                         cfg stateDB (map_option copyRecord recordInitializer) log2 of
                    (Inl err, stateDB1, log3) \<Rightarrow> (Inl err, stateDB1, log3)
                  | (Inr result, stateDB1, log3) \<Rightarrow>
                      (Inr \<lparr>ReturnedData = Ret result, GasUsed = execGasUsed result,
                            resGasLimit = 0, Record = execRecord result\<rparr>,
                       stateDB1, log3))))"

text \<open>
  \<open>SimulateBundle\<close>.  The first loop runs every simulation on the caller's
  store, keeps each run's access list and carries the record on with its
  access list cleared.  The second loop runs on the reconstructed store,
  committed and reopened after every simulation.  The records of the results
  are Go pointers: the assignment \<open>recordInitializer.AccessList = ...\<close> at the
  head of an iteration writes into the record of the result of the iteration
  before it.
\<close>

fun bundlePass1 ::
  "opcodeExecution \<Rightarrow> rpcClient \<Rightarrow> nat \<Rightarrow> Simulation list \<Rightarrow> StateDB \<Rightarrow>
   RecordToInitiateState option \<Rightarrow> AccessList list \<Rightarrow> fetch list \<Rightarrow>
   (error + (RecordToInitiateState option \<times> AccessList list)) \<times> StateDB \<times> fetch list" where
  "bundlePass1 vm rpcClt fuel [] stateDB recordInitializer recordAccessLists log =
     (Inr (recordInitializer, recordAccessLists), stateDB, log)"
| "bundlePass1 vm rpcClt fuel (simulation # rest) stateDB recordInitializer recordAccessLists log =
     (case unoptimalSimulation vm rpcClt fuel simulation stateDB recordInitializer log of
        (Inl err, stateDB1, log1) \<Rightarrow> (Inl err, stateDB1, log1)
      | (Inr simResult, stateDB1, log1) \<Rightarrow>
          bundlePass1 vm rpcClt fuel rest stateDB1
            (Some ((Record simResult)\<lparr>AccessList := []\<rparr>))
            (recordAccessLists @ [AccessList (Record simResult)]) log1)"

definition patchLast :: "AccessList \<Rightarrow> SimulationResult list \<Rightarrow> SimulationResult list" where
  "patchLast al results =
     (if results = [] then []
      else butlast results @ [(last results)\<lparr>Record := (Record (last results))\<lparr>AccessList := al\<rparr>\<rparr>])"

fun bundlePass2 ::
  "opcodeExecution \<Rightarrow> rpcClient \<Rightarrow> nat \<Rightarrow> (Simulation \<times> AccessList) list \<Rightarrow> StateDB \<Rightarrow>
   RecordToInitiateState option \<Rightarrow> SimulationResult list \<Rightarrow> fetch list \<Rightarrow>
   (error + SimulationResult list) \<times> fetch list" where
  "bundlePass2 vm rpcClt fuel [] stateDB recordInitializer results log = (Inr results, log)"
| "bundlePass2 vm rpcClt fuel ((simulation, al) # rest) stateDB recordInitializer results log =
     (case recordInitializer of
        None \<Rightarrow> (Inl RuntimePanic, log)
      | Some r \<Rightarrow>
          (case unoptimalSimulation vm rpcClt fuel simulation stateDB
                  (Some (r\<lparr>AccessList := al\<rparr>)) log of
             (Inl err, stateDB1, log1) \<Rightarrow> (Inl err, log1)
           | (Inr simResult, stateDB1, log1) \<Rightarrow>
               (case Commit stateDB1 of
                  Inl err \<Rightarrow> (Inl CommitError, log1)
                | Inr root \<Rightarrow>
                    (case stateNew root of
                       Inl err \<Rightarrow> (Inl err, log1)
                     | Inr stateDB2 \<Rightarrow>
                         bundlePass2 vm rpcClt fuel rest stateDB2 (Some (Record simResult))
                           (patchLast al results @ [simResult]) log1))))"

text \<open>
  The three sets of every record are Go maps shared with the interpreters of
  all runs: after the call, the record of every result shows the sets as the
  last run left them.
\<close>

definition shareSets :: "SimulationResult list \<Rightarrow> SimulationResult list" where
  "shareSets results =
     (if results = [] then []
      else map (\<lambda>r. r\<lparr>Record := (Record r)
                  \<lparr>AddressCodeSet := AddressCodeSet (Record (last results)),
                   AddressBalanceSet := AddressBalanceSet (Record (last results)),
                   AddressStorageSet := AddressStorageSet (Record (last results))\<rparr>\<rparr>) results)"

definition SimulateBundle ::
  "opcodeExecution \<Rightarrow> rpcClient \<Rightarrow> nat \<Rightarrow> Simulation list \<Rightarrow> StateDB \<Rightarrow>
   RecordToInitiateState option \<Rightarrow> fetch list \<Rightarrow>
   (error + SimulationResult list) \<times> StateDB \<times> fetch list" where
  "SimulateBundle vm rpcClt fuel simulations stateDB recordInitializer log =
     (case bundlePass1 vm rpcClt fuel simulations stateDB recordInitializer [] log of
        (Inl err, stateDB1, log1) \<Rightarrow> (Inl err, stateDB1, log1)
      | (Inr (recordInitializer1, recordAccessLists), stateDB1, log1) \<Rightarrow>
          (case InitIdealState stateDB1 recordInitializer1 of
             Inl err \<Rightarrow> (Inl err, stateDB1, log1)
           | Inr ideal \<Rightarrow>
               (case bundlePass2 vm rpcClt fuel (zip simulations recordAccessLists) ideal
                       recordInitializer1 [] log1 of
                  (r, log2) \<Rightarrow> (map_sum id shareSets r, stateDB1, log2))))"

section \<open>The operations of the scenarios\<close>

text \<open>
  Modelled from the spec: the entries of the Cancun jump table for the
  opcodes the scenarios execute, with the standard EVM semantics and the gas
  schedule of the active rules (EIP-2929 warm and cold storage access,
  EIP-2200 and EIP-3529 storage writes, quadratic memory expansion).  Every
  other opcode is left to a parameter.
\<close>

definition StackLimit :: nat where "StackLimit = 1024"
definition GasQuickStep :: nat where "GasQuickStep = 2"
definition GasFastestStep :: nat where "GasFastestStep = 3"
definition ColdSloadCostEIP2929 :: nat where "ColdSloadCostEIP2929 = 2100"
definition WarmStorageReadCostEIP2929 :: nat where "WarmStorageReadCostEIP2929 = 100"
definition SstoreSentryGasEIP2200 :: nat where "SstoreSentryGasEIP2200 = 2300"
definition SstoreSetGasEIP2200 :: nat where "SstoreSetGasEIP2200 = 20000"
definition SstoreResetGasEIP2200 :: nat where "SstoreResetGasEIP2200 = 5000"
definition SstoreClearsScheduleRefundEIP3529 :: nat where "SstoreClearsScheduleRefundEIP3529 = 4800"
definition MemoryGas :: nat where "MemoryGas = 3"
definition QuadCoeffDiv :: nat where "QuadCoeffDiv = 512"

definition minStackOf :: "nat \<Rightarrow> nat \<Rightarrow> nat" where
  "minStackOf pops push = pops"

definition maxStackOf :: "nat \<Rightarrow> nat \<Rightarrow> nat" where
  "maxStackOf pops push = StackLimit + pops - push"

definition Back :: "Stack \<Rightarrow> nat \<Rightarrow> uint256" where
  "Back stk n = stk ! (length stk - n - 1)"

definition Uint64 :: "uint256 \<Rightarrow> nat" where
  "Uint64 x = unat x mod 2 ^ 64"

definition IsUint64 :: "uint256 \<Rightarrow> bool" where
  "IsUint64 x = (unat x \<le> MaxUint64)"

definition bytesToWord :: "bytes \<Rightarrow> uint256" where
  "bytesToWord bs = foldl (\<lambda>acc b. acc * 256 + ucast b) 0 bs"

definition wordToBytes :: "uint256 \<Rightarrow> bytes" where
  "wordToBytes w = map (\<lambda>i. ucast (drop_bit (8 * (31 - i)) w)) [0..<32]"

definition getData :: "bytes \<Rightarrow> nat \<Rightarrow> nat \<Rightarrow> bytes" where
  "getData data start sz =
     (let s = min start (length data); e = min (s + sz) (length data);
          chunk = take (e - s) (drop s data)
      in chunk @ replicate (sz - length chunk) 0)"

definition GetCommittedState :: "StateDB \<Rightarrow> address \<Rightarrow> hash \<Rightarrow> hash" where
  "GetCommittedState s a k = (case trie s a of Some x \<Rightarrow> acc_storage x k | None \<Rightarrow> 0)"

definition SlotInAccessList :: "StateDB \<Rightarrow> address \<Rightarrow> hash \<Rightarrow> bool" where
  "SlotInAccessList s a k = ((a, k) \<in> set (warmSlots s))"

definition AddSlotToAccessList :: "StateDB \<Rightarrow> address \<Rightarrow> hash \<Rightarrow> StateDB" where
  "AddSlotToAccessList s a k =
     s\<lparr>warmAddresses := setPut a (warmAddresses s), warmSlots := setPut (a, k) (warmSlots s)\<rparr>"

definition AddRefund :: "StateDB \<Rightarrow> nat \<Rightarrow> StateDB" where
  "AddRefund s gas = s\<lparr>refund := refund s + gas\<rparr>"

subsection \<open>Gas functions\<close>

definition memoryGasCost :: "Memory \<Rightarrow> nat \<Rightarrow> (error + nat) \<times> Memory" where
  "memoryGasCost mem newMemSize =
     (if newMemSize = 0 then (Inr 0, mem)
      else if newMemSize > 0x1FFFFFFFE0 then (Inl ErrGasUintOverflow, mem)
      else
        let newMemSizeWords = toWordSize newMemSize;
            newSize = newMemSizeWords * 32
        in if newSize > length (store mem)
           then
             let newTotalFee = newMemSizeWords * MemoryGas
                               + (newMemSizeWords * newMemSizeWords) div QuadCoeffDiv
             in (Inr (newTotalFee - lastGasCost mem), mem\<lparr>lastGasCost := newTotalFee\<rparr>)
           else (Inr 0, mem))"

definition gasMemory ::
  "Contract \<Rightarrow> Stack \<Rightarrow> Memory \<Rightarrow> nat \<Rightarrow> StateDB \<Rightarrow> (error + nat) \<times> Memory \<times> StateDB" where
  "gasMemory c stk mem memSize s = (fst (memoryGasCost mem memSize), snd (memoryGasCost mem memSize), s)"

text \<open>
  A storage read is cold when its slot is not in the warm set of the state
  store, and the read then warms the slot; it is warm otherwise.
\<close>

definition gasSLoadEIP2929 ::
  "Contract \<Rightarrow> Stack \<Rightarrow> Memory \<Rightarrow> nat \<Rightarrow> StateDB \<Rightarrow> (error + nat) \<times> Memory \<times> StateDB" where
  "gasSLoadEIP2929 c stk mem memSize s =
     (let slot = last stk in
      if \<not> SlotInAccessList s (contractAddress c) slot
      then (Inr ColdSloadCostEIP2929, mem, AddSlotToAccessList s (contractAddress c) slot)
      else (Inr WarmStorageReadCostEIP2929, mem, s))"

definition gasSStoreEIP3529 ::
  "Contract \<Rightarrow> Stack \<Rightarrow> Memory \<Rightarrow> nat \<Rightarrow> StateDB \<Rightarrow> (error + nat) \<times> Memory \<times> StateDB" where
  "gasSStoreEIP3529 c stk mem memSize s =
     (if Gas c \<le> SstoreSentryGasEIP2200 then (Inl ErrOutOfGas, mem, s)
      else
        let y = Back stk 1; x = last stk; slot = x;
            current = GetState s (contractAddress c) slot;
            slotPresent = SlotInAccessList s (contractAddress c) slot;
            cost = (if \<not> slotPresent then ColdSloadCostEIP2929 else 0);
            s1 = (if \<not> slotPresent then AddSlotToAccessList s (contractAddress c) slot else s);
            value = y
        in
        if current = value then (Inr (cost + WarmStorageReadCostEIP2929), mem, s1)
        else
          let original = GetCommittedState s1 (contractAddress c) x in
          if original = current then
            (if original = 0 then (Inr (cost + SstoreSetGasEIP2200), mem, s1)
             else (Inr (cost + (SstoreResetGasEIP2200 - ColdSloadCostEIP2929)), mem,
                   if value = 0 then AddRefund s1 SstoreClearsScheduleRefundEIP3529 else s1))
          else
            (case (if original \<noteq> 0
                   then (if current = 0
                         then (if refund s1 < SstoreClearsScheduleRefundEIP3529 then Inl RuntimePanic
                               else Inr (s1\<lparr>refund := refund s1 - SstoreClearsScheduleRefundEIP3529\<rparr>))
                         else if value = 0
                         then Inr (AddRefund s1 SstoreClearsScheduleRefundEIP3529)
                         else Inr s1)
                   else Inr s1) of
               Inl p \<Rightarrow> (Inl p, mem, s1)
             | Inr s2 \<Rightarrow>
                 let s3 = (if original = value
                           then (if original = 0
                                 then AddRefund s2 (SstoreSetGasEIP2200 - WarmStorageReadCostEIP2929)
                                 else AddRefund s2 ((SstoreResetGasEIP2200 - ColdSloadCostEIP2929)
                                        - WarmStorageReadCostEIP2929))
                           else s2)
                 in (Inr (cost + WarmStorageReadCostEIP2929), mem, s3)))"

definition calcMemSize64WithUint :: "uint256 \<Rightarrow> nat \<Rightarrow> nat \<times> bool" where
  "calcMemSize64WithUint off length64 =
     (if length64 = 0 then (0, False)
      else if \<not> IsUint64 off then (0, True)
      else ((unat off + length64) mod 2 ^ 64, (unat off + length64) mod 2 ^ 64 < unat off))"

definition calcMemSize64 :: "uint256 \<Rightarrow> uint256 \<Rightarrow> nat \<times> bool" where
  "calcMemSize64 off l = (if \<not> IsUint64 l then (0, True) else calcMemSize64WithUint off (unat l))"

definition memoryMStore :: "Stack \<Rightarrow> nat \<times> bool" where
  "memoryMStore stk = calcMemSize64WithUint (Back stk 0) 32"

definition memoryReturn :: "Stack \<Rightarrow> nat \<times> bool" where
  "memoryReturn stk = calcMemSize64 (Back stk 0) (Back stk 1)"

subsection \<open>Instructions\<close>

type_synonym executionFunc =
  "nat \<Rightarrow> ScopeContext \<Rightarrow> StateDB \<Rightarrow> (bytes \<times> error option) \<times> nat \<times> ScopeContext \<times> StateDB"

definition opStop :: executionFunc where
  "opStop pc scope s = (([], Some errStopToken), pc, scope, s)"

definition opAdd :: executionFunc where
  "opAdd pc scope s =
     (let stk = stack scope; x = last stk; y = last (butlast stk)
      in (([], None), pc, scope\<lparr>stack := butlast (butlast stk) @ [x + y]\<rparr>, s))"

definition opCallDataLoad :: executionFunc where
  "opCallDataLoad pc scope s =
     (let stk = stack scope; x = last stk;
          x' = (if IsUint64 x then bytesToWord (getData (Input (contract scope)) (unat x) 32) else 0)
      in (([], None), pc, scope\<lparr>stack := butlast stk @ [x']\<rparr>, s))"

definition Set32 :: "Memory \<Rightarrow> nat \<Rightarrow> uint256 \<Rightarrow> error + Memory" where
  "Set32 m off val =
     (if off + 32 > length (store m) then Inl RuntimePanic
      else Inr (m\<lparr>store := take off (store m) @ wordToBytes val @ drop (off + 32) (store m)\<rparr>))"

definition opMstore :: executionFunc where
  "opMstore pc scope s =
     (let stk = stack scope; mStart = last stk; val = last (butlast stk) in
      case Set32 (memory scope) (Uint64 mStart) val of
        Inl p \<Rightarrow> (([], Some p), pc, scope, s)
      | Inr m \<Rightarrow> (([], None), pc, scope\<lparr>stack := butlast (butlast stk), memory := m\<rparr>, s))"

definition opSload :: executionFunc where
  "opSload pc scope s =
     (let stk = stack scope; loc = last stk;
          val = GetState s (contractAddress (contract scope)) loc
      in (([], None), pc, scope\<lparr>stack := butlast stk @ [val]\<rparr>, s))"

definition opSstore :: executionFunc where
  "opSstore pc scope s =
     (let stk = stack scope; loc = last stk; val = last (butlast stk)
      in (([], None), pc, scope\<lparr>stack := butlast (butlast stk)\<rparr>,
          SetState s (contractAddress (contract scope)) loc val))"

definition opPush0 :: executionFunc where
  "opPush0 pc scope s = (([], None), pc, scope\<lparr>stack := stack scope @ [0]\<rparr>, s)"

definition opPush1 :: executionFunc where
  "opPush1 pc scope s =
     (let codeLen = length (Code (contract scope)); pc1 = pc + 1 in
      (([], None), pc1,
       scope\<lparr>stack := stack scope @
          [if pc1 < codeLen then ucast (Code (contract scope) ! pc1) else 0]\<rparr>, s))"

definition GetPtr :: "Memory \<Rightarrow> nat \<Rightarrow> nat \<Rightarrow> error + bytes" where
  "GetPtr m off sz =
     (if sz = 0 then Inr []
      else if length (store m) > off
      then (if off + sz \<le> length (store m) then Inr (take sz (drop off (store m)))
            else Inl RuntimePanic)
      else Inr [])"

definition opReturn :: executionFunc where
  "opReturn pc scope s =
     (let stk = stack scope; offset = last stk; sz = last (butlast stk) in
      case GetPtr (memory scope) (Uint64 offset) (Uint64 sz) of
        Inl p \<Rightarrow> (([], Some p), pc, scope, s)
      | Inr ret \<Rightarrow> ((ret, Some errStopToken), pc, scope\<lparr>stack := butlast (butlast stk)\<rparr>, s))"

definition cancunTable :: "JumpTable \<Rightarrow> JumpTable" where
  "cancunTable other op =
     (if op = STOP then
        \<lparr>execute = opStop, constantGas = 0, minStack = minStackOf 0 0, maxStack = maxStackOf 0 0,
         dynamicGas = None, memorySize = None\<rparr>
      else if op = ADD then
        \<lparr>execute = opAdd, constantGas = GasFastestStep, minStack = minStackOf 2 1,
         maxStack = maxStackOf 2 1, dynamicGas = None, memorySize = None\<rparr>
      else if op = CALLDATALOAD then
        \<lparr>execute = opCallDataLoad, constantGas = GasFastestStep, minStack = minStackOf 1 1,
         maxStack = maxStackOf 1 1, dynamicGas = None, memorySize = None\<rparr>
      else if op = MSTORE then
        \<lparr>execute = opMstore, constantGas = GasFastestStep, minStack = minStackOf 2 0,
         maxStack = maxStackOf 2 0, dynamicGas = Some gasMemory, memorySize = Some memoryMStore\<rparr>
      else if op = SLOAD then
        \<lparr>execute = opSload, constantGas = 0, minStack = minStackOf 1 1,
         maxStack = maxStackOf 1 1, dynamicGas = Some gasSLoadEIP2929, memorySize = None\<rparr>
      else if op = SSTORE then
        \<lparr>execute = opSstore, constantGas = 0, minStack = minStackOf 2 0,
         maxStack = maxStackOf 2 0, dynamicGas = Some gasSStoreEIP3529, memorySize = None\<rparr>
      else if op = PUSH0 then
        \<lparr>execute = opPush0, constantGas = GasQuickStep, minStack = minStackOf 0 1,
         maxStack = maxStackOf 0 1, dynamicGas = None, memorySize = None\<rparr>
      else if op = PUSH1 then
        \<lparr>execute = opPush1, constantGas = GasFastestStep, minStack = minStackOf 0 1,
         maxStack = maxStackOf 0 1, dynamicGas = None, memorySize = None\<rparr>
      else if op = RETURN then
        \<lparr>execute = opReturn, constantGas = 0, minStack = minStackOf 2 0,
         maxStack = maxStackOf 2 0, dynamicGas = Some gasMemory, memorySize = Some memoryReturn\<rparr>
      else other op)"

text \<open>
  The collaborator under the Cancun rules: the table above, whatever the
  other operations are, and the ten precompiled contracts at the addresses 1
  to 10, whatever they compute.
\<close>

definition cancun :: "JumpTable \<Rightarrow> (address \<Rightarrow> PrecompiledContract) \<Rightarrow> opcodeExecution" where
  "cancun other precompiled =
     \<lparr>table = cancunTable other,
      precompiles = map (\<lambda>a. (a, precompiled a)) [1, 2, 3, 4, 5, 6, 7, 8, 9, 10]\<rparr>"

section \<open>Scenarios\<close>

text \<open>
  A run touches storage through a sequence of \<open>appendToAccessList\<close> calls, one
  for each dispatched SLOAD or SSTORE, each with the address of the executing
  contract and the stack of that moment.
\<close>

fun runTouches :: "(OpCode \<times> address \<times> Stack) list \<Rightarrow> EVMInterpreter \<Rightarrow> error + EVMInterpreter" where
  "runTouches [] i = Inr i"
| "runTouches ((op, self, stk) # evs) i =
     (case appendToAccessList op self stk i of Inl e \<Rightarrow> Inl e | Inr i' \<Rightarrow> runTouches evs i')"

definition touchKey :: "OpCode \<times> address \<times> Stack \<Rightarrow> address \<times> hash" where
  "touchKey ev = (fst (snd ev), last (snd (snd ev)))"

text \<open>The (address, slot) pairs of a sequence in the order of their first occurrence.\<close>

fun firstTouches :: "(address \<times> hash) list \<Rightarrow> (address \<times> hash) list \<Rightarrow> (address \<times> hash) list" where
  "firstTouches seen [] = []"
| "firstTouches seen (t # ts) =
     (if t \<in> set seen then firstTouches seen ts else t # firstTouches (seen @ [t]) ts)"

definition exampleTouches :: "(OpCode \<times> address \<times> Stack) list" where
  "exampleTouches =
     [(SLOAD, 0x0a, [1]), (SSTORE, 0x0a, [9, 1]), (SLOAD, 0x0a, [7, 2]), (SSTORE, 0x0b, [3, 1]),
      (SLOAD, 0x0a, [2])]"

definition freshStateDB :: StateDB where
  "freshStateDB = \<lparr>trie = EmptyRootHash, objects = (\<lambda>_. None), warmAddresses = [],
     warmSlots = [], refund = 0\<rparr>"

text \<open>
  A reference state as a discovery pass leaves it: the contract at \<open>0x11\<close> has
  its code, and its slot 0, fetched as 7, has since been overwritten with 9.
\<close>

definition exampleOrigin :: StateDB where
  "exampleOrigin = SetState (SetState (SetCode (CreateAccount freshStateDB 0x11) 0x11 [0x5f, 0x54])
     0x11 0 7) 0x11 0 9"

definition exampleRecord :: RecordToInitiateState where
  "exampleRecord = \<lparr>AddressCodeSet = [0x11], AddressBalanceSet = [],
     AddressStorageSet = [((0x11, 0), 7)], AccessList = []\<rparr>"

text \<open>
  The bundle of the repository's test: three simulations of the same code on
  the contract at \<open>0x11\<close>, from the zero address, at block 1, with no value,
  whose inputs are the 32-byte words 1, 2 and 3.
\<close>

definition bundleCode :: bytes where
  "bundleCode = [PUSH0, CALLDATALOAD, PUSH0, SLOAD, ADD, PUSH0, SSTORE, PUSH0, SLOAD, PUSH0,
     MSTORE, PUSH1, 0x20, PUSH0, RETURN]"

definition word32 :: "byte \<Rightarrow> bytes" where
  "word32 b = [0, 0, 0, 0, 0, 0, 0, 0, 0, 0, 0, 0, 0, 0, 0, 0,
               0, 0, 0, 0, 0, 0, 0, 0, 0, 0, 0, 0, 0, 0, 0, b]"

definition bundleSimulation :: "byte \<Rightarrow> Simulation" where
  "bundleSimulation b =
     \<lparr>From = 0, To = 0x11, simBlockNumber = 1, GasLimit = 300000, GasPrice = 0, Value = 0,
      simInput = word32 b, simCode = bundleCode\<rparr>"

text \<open>
  The gas of one run of that program in the second pass of the bundle, up to
  the charge of its storage write: the intrinsic gas of the 32 bytes of input
  (31 zero, one not) and of an access list of one address and one slot, six
  PUSH0, four operations of the fastest step, one word of memory and two warm
  storage reads.
\<close>

definition bundleGas :: "nat \<Rightarrow> nat" where
  "bundleGas sstore =
     TxGas + 31 * TxDataZeroGas + TxDataNonZeroGasEIP2028 + TxAccessListAddressGas
     + TxAccessListStorageKeyGas + 6 * GasQuickStep + 4 * GasFastestStep + MemoryGas
     + 2 * WarmStorageReadCostEIP2929 + sstore"

text \<open>A program that reads slot 0 twice, and its simulation.\<close>

definition twoReadsCode :: bytes where
  "twoReadsCode = [PUSH0, SLOAD, PUSH0, SLOAD, STOP]"

definition twoReadsSimulation :: Simulation where
  "twoReadsSimulation =
     \<lparr>From = 0, To = 0x11, simBlockNumber = 1, GasLimit = 300000, GasPrice = 0, Value = 0,
      simInput = [], simCode = twoReadsCode\<rparr>"

text \<open>A remote node that answers every request: no code, zero storage, a balance of 10.\<close>

definition exampleRemote :: rpcClient where
  "exampleRemote = \<lparr>eth_getCode = (\<lambda>a t. Inr []), eth_getStorageAt = (\<lambda>a k t. Inr 0),
     eth_getBalance = (\<lambda>a t. Inr 10)\<rparr>"

text \<open>
  The operations and precompiled contracts the scenarios never reach, for the
  closed examples: an undefined opcode, and a precompiled contract that
  returns nothing.
\<close>

definition opUndefined :: executionFunc where
  "opUndefined pc scope s = (([], Some ErrInvalidOpCode), pc, scope, s)"

definition undefinedTable :: JumpTable where
  "undefinedTable op = \<lparr>execute = opUndefined, constantGas = 0, minStack = minStackOf 0 0,
     maxStack = maxStackOf 0 0, dynamicGas = None, memorySize = None\<rparr>"

definition emptyPrecompiled :: "address \<Rightarrow> PrecompiledContract" where
  "emptyPrecompiled a = (\<lambda>input gas. ([], gas, None))"

text \<open>A simulation that sends a value of 10 (the balance the example remote reports).\<close>

definition valueSimulation :: Simulation where
  "valueSimulation =
     \<lparr>From = 0, To = 0x11, simBlockNumber = 1, GasLimit = 300000, GasPrice = 0, Value = 10,
      simInput = [], simCode = twoReadsCode\<rparr>"

text \<open>
  A CALL of the address \<open>0xbb\<close> with a value of 5 (the stack, bottom first:
  return size and offset, input size and offset, value, address, gas), in a
  world whose interpreter has registered the code of \<open>0xbb\<close> before and
  whose state holds no balance for it.
\<close>

definition callStack :: Stack where
  "callStack = [0, 0, 0, 0, 5, 0xbb, 100]"

definition knownCodeWorld :: world where
  "knownCodeWorld =
     \<lparr>StateDB = SetCode (CreateAccount freshStateDB 0xbb) 0xbb [0x00],
      interp = \<lparr>addressCodeSet = [0xbb], addressBalanceSet = [], addressStorageSet = [],
                addressSlotAccessListSet = [], accessList = []\<rparr>,
      fetches = []\<rparr>"

definition freshWorld :: world where
  "freshWorld = \<lparr>StateDB = freshStateDB, interp = NewEVMInterpreter None, fetches = []\<rparr>"

text \<open>
  A remote node whose code request fails, and a simulation without code that
  sends a value of 10: its code has to be fetched.
\<close>

definition deafRemote :: rpcClient where
  "deafRemote = \<lparr>eth_getCode = (\<lambda>a t. Inl NetworkError), eth_getStorageAt = (\<lambda>a k t. Inr 0),
     eth_getBalance = (\<lambda>a t. Inr 10)\<rparr>"

definition codelessSimulation :: Simulation where
  "codelessSimulation =
     \<lparr>From = 0, To = 0x11, simBlockNumber = 1, GasLimit = 300000, GasPrice = 0, Value = 10,
      simInput = [], simCode = []\<rparr>"

text \<open>A remote node that reports 5 for every storage slot.\<close>

definition fiveRemote :: rpcClient where
  "fiveRemote = \<lparr>eth_getCode = (\<lambda>a t. Inr []), eth_getStorageAt = (\<lambda>a k t. Inr 5),
     eth_getBalance = (\<lambda>a t. Inr 10)\<rparr>"

subsection \<open>Facts and fetches\<close>

text \<open>
  The fact a remote invocation asks for, and the facts the sets of an
  interpreter cover.  The balance of an address is asked for by the call hook
  only while it registers the code of that address, so the code set covers
  the balance as well.
\<close>

datatype fact = CodeOf address | StorageOf address hash | BalanceOf address

fun factOf :: "fetch \<Rightarrow> fact" where
  "factOf (FetchCode a t) = CodeOf a"
| "factOf (FetchStorage a k t) = StorageOf a k"
| "factOf (FetchBalance a t) = BalanceOf a"

fun covered :: "EVMInterpreter \<Rightarrow> fact \<Rightarrow> bool" where
  "covered i (CodeOf a) = (a \<in> set (addressCodeSet i))"
| "covered i (StorageOf a k) = ((a, k) \<in> fst ` set (addressStorageSet i))"
| "covered i (BalanceOf a) = (a \<in> set (addressCodeSet i) \<or> a \<in> set (addressBalanceSet i))"

section \<open>A pass, state by state\<close>








section \<open>Properties\<close>

lemmas opcode_defs =
  STOP_def ADD_def CALLDATALOAD_def EXTCODESIZE_def EXTCODECOPY_def EXTCODEHASH_def
  MSTORE_def SLOAD_def SSTORE_def PUSH0_def PUSH1_def CALL_def CALLCODE_def RETURN_def
  DELEGATECALL_def STATICCALL_def

subsection \<open>Reads of the state store\<close>

lemma gso_CreateAccount:
  "getStateObject (CreateAccount s a) b = (if b = a then Some emptyAccount else getStateObject s b)"
  by (simp add: getStateObject_def CreateAccount_def split: option.splits)

lemma gso_SetCode:
  "getStateObject (SetCode s a c) b =
     (if b = a then Some ((getOrNewStateObject s a)\<lparr>acc_code := c\<rparr>) else getStateObject s b)"
  by (simp add: getStateObject_def SetCode_def split: option.splits)

lemma gso_SetBalance:
  "getStateObject (SetBalance s a x) b =
     (if b = a then Some ((getOrNewStateObject s a)\<lparr>acc_balance := x\<rparr>) else getStateObject s b)"
  by (simp add: getStateObject_def SetBalance_def split: option.splits)

lemma gso_SetState:
  "getStateObject (SetState s a k v) b =
     (if b = a
      then Some ((getOrNewStateObject s a)
             \<lparr>acc_storage := (acc_storage (getOrNewStateObject s a))(k := v)\<rparr>)
      else getStateObject s b)"
  by (simp add: getStateObject_def SetState_def split: option.splits)

lemma gso_fresh: "getStateObject freshStateDB a = None"
  by (simp add: getStateObject_def freshStateDB_def EmptyRootHash_def)

lemma gso_reopen:
  "getStateObject \<lparr>trie = r, objects = (\<lambda>_. None), warmAddresses = wa, warmSlots = ws,
     refund = rf\<rparr> a = r a"
  by (simp add: getStateObject_def)

lemmas gso_simps = gso_CreateAccount gso_SetCode gso_SetBalance gso_SetState gso_fresh gso_reopen

lemmas read_defs = GetCode_def GetBalance_def GetState_def getOrNewStateObject_def Exist_def

lemma fields_simps [simp]:
  "trie (CreateAccount s a) = trie s" "warmAddresses (CreateAccount s a) = warmAddresses s"
  "warmSlots (CreateAccount s a) = warmSlots s" "refund (CreateAccount s a) = refund s"
  "trie (SetCode s a c) = trie s" "warmAddresses (SetCode s a c) = warmAddresses s"
  "warmSlots (SetCode s a c) = warmSlots s" "refund (SetCode s a c) = refund s"
  "trie (SetBalance s a b) = trie s" "warmAddresses (SetBalance s a b) = warmAddresses s"
  "warmSlots (SetBalance s a b) = warmSlots s" "refund (SetBalance s a b) = refund s"
  "trie (SetState s a k v) = trie s" "warmAddresses (SetState s a k v) = warmAddresses s"
  "warmSlots (SetState s a k v) = warmSlots s" "refund (SetState s a k v) = refund s"
  "trie freshStateDB = EmptyRootHash" "warmAddresses freshStateDB = []"
  "warmSlots freshStateDB = []" "refund freshStateDB = 0"
  by (simp_all add: CreateAccount_def SetCode_def SetBalance_def SetState_def freshStateDB_def)

lemma gso_fields [simp]:
  "getStateObject (s\<lparr>warmAddresses := x\<rparr>) a = getStateObject s a"
  "getStateObject (s\<lparr>warmSlots := y\<rparr>) a = getStateObject s a"
  "getStateObject (s\<lparr>refund := z\<rparr>) a = getStateObject s a"
  by (simp_all add: getStateObject_def split: option.splits)

text \<open>
  Reads through the writes, one field at a time (a read of an object through
  a chain of writes would visit the chain twice at every link).
\<close>

lemma reads_CreateAccount:
  "Exist (CreateAccount s a) b = (b = a \<or> Exist s b)"
  "GetCode (CreateAccount s a) b = (if b = a then [] else GetCode s b)"
  "GetBalance (CreateAccount s a) b = (if b = a then 0 else GetBalance s b)"
  "GetState (CreateAccount s a) b j = (if b = a then 0 else GetState s b j)"
  by (simp_all add: read_defs gso_simps emptyAccount_def)

lemma reads_SetCode:
  "Exist (SetCode s a c) b = (b = a \<or> Exist s b)"
  "GetCode (SetCode s a c) b = (if b = a then c else GetCode s b)"
  "GetBalance (SetCode s a c) b = GetBalance s b"
  "GetState (SetCode s a c) b j = GetState s b j"
  by (simp_all add: read_defs gso_simps emptyAccount_def split: option.splits)

lemma reads_SetBalance:
  "Exist (SetBalance s a x) b = (b = a \<or> Exist s b)"
  "GetCode (SetBalance s a x) b = GetCode s b"
  "GetBalance (SetBalance s a x) b = (if b = a then x else GetBalance s b)"
  "GetState (SetBalance s a x) b j = GetState s b j"
  by (simp_all add: read_defs gso_simps emptyAccount_def split: option.splits)

lemma reads_SetState:
  "Exist (SetState s a k v) b = (b = a \<or> Exist s b)"
  "GetCode (SetState s a k v) b = GetCode s b"
  "GetBalance (SetState s a k v) b = GetBalance s b"
  "GetState (SetState s a k v) b j = (if b = a \<and> j = k then v else GetState s b j)"
  by (simp_all add: read_defs gso_simps emptyAccount_def split: option.splits)

lemma reads_fresh:
  "Exist freshStateDB b = False" "GetCode freshStateDB b = []" "GetBalance freshStateDB b = 0"
  "GetState freshStateDB b j = 0"
  by (simp_all add: read_defs gso_simps)

lemma reads_fields:
  "Exist (s\<lparr>warmAddresses := x\<rparr>) = Exist s" "Exist (s\<lparr>warmSlots := y\<rparr>) = Exist s"
  "Exist (s\<lparr>refund := z\<rparr>) = Exist s"
  "GetCode (s\<lparr>warmAddresses := x\<rparr>) = GetCode s" "GetCode (s\<lparr>warmSlots := y\<rparr>) = GetCode s"
  "GetCode (s\<lparr>refund := z\<rparr>) = GetCode s"
  "GetBalance (s\<lparr>warmAddresses := x\<rparr>) = GetBalance s"
  "GetBalance (s\<lparr>warmSlots := y\<rparr>) = GetBalance s"
  "GetBalance (s\<lparr>refund := z\<rparr>) = GetBalance s"
  "GetState (s\<lparr>warmAddresses := x\<rparr>) = GetState s" "GetState (s\<lparr>warmSlots := y\<rparr>) = GetState s"
  "GetState (s\<lparr>refund := z\<rparr>) = GetState s"
  by (simp_all add: read_defs fun_eq_iff)

lemma reads_reopen:
  "Exist \<lparr>trie = (\<lambda>a. getStateObject s a), objects = (\<lambda>_. None), warmAddresses = wa,
     warmSlots = ws, refund = rf\<rparr> b = Exist s b"
  "GetCode \<lparr>trie = (\<lambda>a. getStateObject s a), objects = (\<lambda>_. None), warmAddresses = wa,
     warmSlots = ws, refund = rf\<rparr> b = GetCode s b"
  "GetBalance \<lparr>trie = (\<lambda>a. getStateObject s a), objects = (\<lambda>_. None), warmAddresses = wa,
     warmSlots = ws, refund = rf\<rparr> b = GetBalance s b"
  "GetState \<lparr>trie = (\<lambda>a. getStateObject s a), objects = (\<lambda>_. None), warmAddresses = wa,
     warmSlots = ws, refund = rf\<rparr> b j = GetState s b j"
  by (simp_all add: read_defs gso_simps)

lemma reads_committed:
  "GetCommittedState (CreateAccount s a) = GetCommittedState s"
  "GetCommittedState (SetCode s a c) = GetCommittedState s"
  "GetCommittedState (SetBalance s a x) = GetCommittedState s"
  "GetCommittedState (SetState s a k v) = GetCommittedState s"
  "GetCommittedState (s\<lparr>warmAddresses := wa\<rparr>) = GetCommittedState s"
  "GetCommittedState (s\<lparr>warmSlots := ws\<rparr>) = GetCommittedState s"
  "GetCommittedState (s\<lparr>refund := z\<rparr>) = GetCommittedState s"
  "GetCommittedState freshStateDB b j = 0"
  "GetCommittedState \<lparr>trie = (\<lambda>a. getStateObject s a), objects = (\<lambda>_. None),
     warmAddresses = wa, warmSlots = ws, refund = rf\<rparr> b j = GetState s b j"
  by (simp_all add: GetCommittedState_def fun_eq_iff GetState_def EmptyRootHash_def)

lemma reads_new:
  "Exist \<lparr>trie = EmptyRootHash, objects = (\<lambda>_. None), warmAddresses = wa, warmSlots = ws,
     refund = rf\<rparr> b = False"
  "GetCode \<lparr>trie = EmptyRootHash, objects = (\<lambda>_. None), warmAddresses = wa, warmSlots = ws,
     refund = rf\<rparr> b = []"
  "GetBalance \<lparr>trie = EmptyRootHash, objects = (\<lambda>_. None), warmAddresses = wa, warmSlots = ws,
     refund = rf\<rparr> b = 0"
  "GetState \<lparr>trie = EmptyRootHash, objects = (\<lambda>_. None), warmAddresses = wa, warmSlots = ws,
     refund = rf\<rparr> b j = 0"
  by (simp_all add: read_defs gso_simps EmptyRootHash_def)

lemma MustFromBig_uint: "MustFromBig (uint (x :: uint256)) = Inr x"
proof -
  have "uint x < 2 ^ 256" using uint_bounded [of x] by simp
  then show ?thesis by (simp add: MustFromBig_def)
qed

lemma gso_None: "(getStateObject s b = None) = (\<not> Exist s b)"
  by (simp add: Exist_def)

lemma trie_None:
  "(trie \<lparr>trie = (\<lambda>a. getStateObject s a), objects = ob, warmAddresses = wa, warmSlots = ws,
      refund = rf\<rparr> b = None) = (\<not> Exist s b)"
  "(EmptyRootHash b = None) = True"
  by (simp_all add: Exist_def EmptyRootHash_def)

lemmas reads = reads_CreateAccount reads_SetCode reads_SetBalance reads_SetState reads_fresh
  reads_fields reads_reopen reads_committed trie_None gso_None reads_new MustFromBig_uint

subsection \<open>Running the dispatch loop on a given program\<close>

lemma runLoop_unfold:
  "0 < n \<Longrightarrow> runLoop n tbl rpcClt blk pc scope w =
     (case dispatch tbl rpcClt blk pc scope w of
        Halt r c' w' \<Rightarrow> (r, c', w')
      | Continue pc' scope' w' \<Rightarrow> runLoop (n - 1) tbl rpcClt blk pc' scope' w')"
  by (cases n) (auto split: step.splits)

lemmas gas_defs = GasQuickStep_def GasFastestStep_def ColdSloadCostEIP2929_def
  WarmStorageReadCostEIP2929_def SstoreSentryGasEIP2200_def SstoreSetGasEIP2200_def
  SstoreResetGasEIP2200_def SstoreClearsScheduleRefundEIP3529_def MemoryGas_def QuadCoeffDiv_def
  StackLimit_def minStackOf_def maxStackOf_def MaxUint64_def TxGas_def TxDataNonZeroGasEIP2028_def
  TxDataZeroGas_def TxAccessListAddressGas_def TxAccessListStorageKeyGas_def

lemma cancunTable_ops:
  "cancunTable other 0x00 =
     \<lparr>execute = opStop, constantGas = 0, minStack = 0, maxStack = 1024,
      dynamicGas = None, memorySize = None\<rparr>"
  "cancunTable other 0x01 =
     \<lparr>execute = opAdd, constantGas = 3, minStack = 2, maxStack = 1025,
      dynamicGas = None, memorySize = None\<rparr>"
  "cancunTable other 0x35 =
     \<lparr>execute = opCallDataLoad, constantGas = 3, minStack = 1, maxStack = 1024,
      dynamicGas = None, memorySize = None\<rparr>"
  "cancunTable other 0x52 =
     \<lparr>execute = opMstore, constantGas = 3, minStack = 2, maxStack = 1026,
      dynamicGas = Some gasMemory, memorySize = Some memoryMStore\<rparr>"
  "cancunTable other 0x54 =
     \<lparr>execute = opSload, constantGas = 0, minStack = 1, maxStack = 1024,
      dynamicGas = Some gasSLoadEIP2929, memorySize = None\<rparr>"
  "cancunTable other 0x55 =
     \<lparr>execute = opSstore, constantGas = 0, minStack = 2, maxStack = 1026,
      dynamicGas = Some gasSStoreEIP3529, memorySize = None\<rparr>"
  "cancunTable other 0x5f =
     \<lparr>execute = opPush0, constantGas = 2, minStack = 0, maxStack = 1023,
      dynamicGas = None, memorySize = None\<rparr>"
  "cancunTable other 0x60 =
     \<lparr>execute = opPush1, constantGas = 3, minStack = 0, maxStack = 1023,
      dynamicGas = None, memorySize = None\<rparr>"
  "cancunTable other 0xf3 =
     \<lparr>execute = opReturn, constantGas = 0, minStack = 2, maxStack = 1026,
      dynamicGas = Some gasMemory, memorySize = Some memoryReturn\<rparr>"
  by (simp_all add: cancunTable_def opcode_defs gas_defs)

lemma preDispatch_plain:
  "preDispatch rpcClt blk 0x00 scope w = (None, w)"
  "preDispatch rpcClt blk 0x01 scope w = (None, w)"
  "preDispatch rpcClt blk 0x35 scope w = (None, w)"
  "preDispatch rpcClt blk 0x52 scope w = (None, w)"
  "preDispatch rpcClt blk 0x5f scope w = (None, w)"
  "preDispatch rpcClt blk 0x60 scope w = (None, w)"
  "preDispatch rpcClt blk 0xf3 scope w = (None, w)"
  by (simp_all add: preDispatch_def readStorage_def isCall_def isExtCode_def
      interactWithStorage_def opcode_defs)

lemma preDispatch_SSTORE:
  "preDispatch rpcClt blk 0x55 scope w =
     (case appendToAccessList 0x55 (contractAddress (contract scope)) (stack scope) (interp w) of
        Inl p \<Rightarrow> (Some p, w) | Inr i \<Rightarrow> (None, w\<lparr>interp := i\<rparr>))"
  by (simp add: preDispatch_def readStorage_def isCall_def isExtCode_def
      interactWithStorage_def opcode_defs)

lemma preDispatch_SLOAD:
  "preDispatch rpcClt blk 0x54 scope w =
     (case registerAddressStorage rpcClt 0x54 (contractAddress (contract scope)) (stack scope)
             blk w of
        (Some e, w1) \<Rightarrow> (Some e, w1)
      | (None, w1) \<Rightarrow>
          (case appendToAccessList 0x54 (contractAddress (contract scope)) (stack scope)
                  (interp w1) of
             Inl p \<Rightarrow> (Some p, w1) | Inr i \<Rightarrow> (None, w1\<lparr>interp := i\<rparr>)))"
  by (simp add: preDispatch_def readStorage_def isCall_def isExtCode_def
      interactWithStorage_def opcode_defs split: prod.splits option.splits)

lemma chargeDynamic_None:
  "dynamicGas operation = None \<Longrightarrow> chargeDynamic operation scope s = (Inr scope, s)"
  by (simp add: chargeDynamic_def)

lemma length_wordToBytes [simp]: "length (wordToBytes w) = 32"
  by (simp add: wordToBytes_def)

lemma wordToBytes_nonempty [simp]: "wordToBytes w \<noteq> []"
  using length_wordToBytes [of w] by (cases "wordToBytes w") simp_all

lemma wordToBytes_word32:
  "wordToBytes 1 = word32 1" "wordToBytes 3 = word32 3" "wordToBytes 6 = word32 6"
  "wordToBytes 8 = word32 8" "wordToBytes 11 = word32 11"
  by (simp_all add: wordToBytes_def word32_def upt_rec drop_bit_eq_div)

lemma step_PUSH0:
  "length (stack scope) \<le> 1023 \<Longrightarrow> 2 \<le> Gas (contract scope) \<Longrightarrow>
   dispatchOp (cancunTable other) rpcClt blk 0x5f pc scope w =
     Continue (pc + 1)
       (scope\<lparr>contract := (contract scope)\<lparr>Gas := Gas (contract scope) - 2\<rparr>,
              stack := stack scope @ [0]\<rparr>) w"
  by (simp add: dispatchOp_def cancunTable_ops preDispatch_plain chargeDynamic_None UseGas_def
      opPush0_def Let_def)

lemma step_PUSH1:
  "length (stack scope) \<le> 1023 \<Longrightarrow> 3 \<le> Gas (contract scope) \<Longrightarrow>
   dispatchOp (cancunTable other) rpcClt blk 0x60 pc scope w =
     Continue (pc + 2)
       (scope\<lparr>contract := (contract scope)\<lparr>Gas := Gas (contract scope) - 3\<rparr>,
              stack := stack scope @
                [if pc + 1 < length (Code (contract scope))
                 then ucast (Code (contract scope) ! (pc + 1)) else 0]\<rparr>) w"
  by (simp add: dispatchOp_def cancunTable_ops preDispatch_plain chargeDynamic_None UseGas_def
      opPush1_def Let_def)

lemma step_ADD:
  "2 \<le> length (stack scope) \<Longrightarrow> length (stack scope) \<le> 1025 \<Longrightarrow>
   3 \<le> Gas (contract scope) \<Longrightarrow>
   dispatchOp (cancunTable other) rpcClt blk 0x01 pc scope w =
     Continue (pc + 1)
       (scope\<lparr>contract := (contract scope)\<lparr>Gas := Gas (contract scope) - 3\<rparr>,
              stack := butlast (butlast (stack scope)) @
                [last (stack scope) + last (butlast (stack scope))]\<rparr>) w"
  by (simp add: dispatchOp_def cancunTable_ops preDispatch_plain chargeDynamic_None UseGas_def
      opAdd_def Let_def)

lemma step_CALLDATALOAD:
  "1 \<le> length (stack scope) \<Longrightarrow> length (stack scope) \<le> 1024 \<Longrightarrow>
   3 \<le> Gas (contract scope) \<Longrightarrow>
   dispatchOp (cancunTable other) rpcClt blk 0x35 pc scope w =
     Continue (pc + 1)
       (scope\<lparr>contract := (contract scope)\<lparr>Gas := Gas (contract scope) - 3\<rparr>,
              stack := butlast (stack scope) @
                [if IsUint64 (last (stack scope))
                 then bytesToWord (getData (Input (contract scope)) (unat (last (stack scope))) 32)
                 else 0]\<rparr>) w"
  by (auto simp add: dispatchOp_def cancunTable_ops preDispatch_plain chargeDynamic_None
      UseGas_def opCallDataLoad_def Let_def)

lemma step_STOP:
  "length (stack scope) \<le> 1024 \<Longrightarrow>
   dispatchOp (cancunTable other) rpcClt blk 0x00 pc scope w =
     Halt ([], None) (contract scope) w"
  by (simp add: dispatchOp_def cancunTable_ops preDispatch_plain chargeDynamic_None UseGas_def
      opStop_def Let_def)

lemmas steps = step_PUSH0 step_PUSH1 step_ADD step_CALLDATALOAD step_STOP

lemmas hooked_steps = dispatchOp_def [where op = "0x52"] dispatchOp_def [where op = "0x54"]
  dispatchOp_def [where op = "0x55"] dispatchOp_def [where op = "0xf3"]

lemmas op_defs = opStop_def opAdd_def opCallDataLoad_def opMstore_def opSload_def opSstore_def
  opPush0_def opPush1_def opReturn_def Set32_def GetPtr_def getData_def

lemmas hook_defs = registerAddressStorage_def appendToAccessList_def peek_def logFetch_def
  mapPut_def setPut_def

lemmas dyn_defs = chargeDynamic_def gasMemory_def memoryGasCost_def gasSLoadEIP2929_def
  gasSStoreEIP3529_def memoryMStore_def memoryReturn_def calcMemSize64_def
  calcMemSize64WithUint_def IsUint64_def Uint64_def Back_def toWordSize_def SafeMul_def
  Resize_def SlotInAccessList_def AddSlotToAccessList_def AddRefund_def

text \<open>
  The rewrite rules that run a simulation of a given program on a given
  state, from the outside in (the bodies of \<open>let\<close> and of tuple patterns are
  rewritten only once their arguments are known).
\<close>

lemmas eval_simps = SimulateBundle_def Simulate_def unoptimalSimulation_def Execute_def Call_def
  Run_def resolveCode_def ConfigFromSimulation_def simBlk_def SetDefaults_def InitIdealState_def
  Prepare_def IntrinsicGas_def CanTransfer_def Transfer_def AddBalance_def SubBalance_def
  MustFromBig_def NewEVMInterpreter_def GetRecordToInitState_def MarkAddressCode_def
  MarkAddressBalance_def copyRecord_def withoutAccessList_def patchLast_def shareSets_def
  stateNew_def Commit_def cancun_def GetCodeSize_def bundleSimulation_def bundleCode_def
  twoReadsSimulation_def twoReadsCode_def valueSimulation_def word32_def opcode_defs
  runLoop_unfold dispatch_def steps hooked_steps GetOp_def cancunTable_ops preDispatch_plain
  preDispatch_SSTORE preDispatch_SLOAD op_defs hook_defs dyn_defs gas_defs UseGas_def Let_def
  reads rpcGetStorageAt_def rpcGetBalance_def rpcGetCode_def bytesToWord_def

subsection \<open>The access list is built in first-touch order\<close>

lemma firstTouches_fresh: "x \<in> set (firstTouches seen ts) \<Longrightarrow> x \<notin> set seen"
proof (induction ts arbitrary: seen)
  case Nil then show ?case by simp
next
  case (Cons t ts)
  show ?case
  proof (cases "t \<in> set seen")
    case True
    with Cons show ?thesis by simp
  next
    case False
    with Cons.prems have "x = t \<or> x \<in> set (firstTouches (seen @ [t]) ts)" by simp
    then show ?thesis using False Cons.IH [of "seen @ [t]"] by auto
  qed
qed

lemma firstTouches_distinct: "distinct (firstTouches seen ts)"
proof (induction ts arbitrary: seen)
  case Nil show ?case by simp
next
  case (Cons t ts)
  have "t \<notin> set (firstTouches (seen @ [t]) ts)"
    using firstTouches_fresh [of t "seen @ [t]" ts] by auto
  with Cons show ?case by simp
qed

lemma appendToAccessList_seen:
  "stk \<noteq> [] \<Longrightarrow> (self, last stk) \<in> set (addressSlotAccessListSet i) \<Longrightarrow>
   appendToAccessList op self stk i = Inr i"
  by (simp add: appendToAccessList_def peek_def)

lemma appendToAccessList_new:
  "stk \<noteq> [] \<Longrightarrow> (self, last stk) \<notin> set (addressSlotAccessListSet i) \<Longrightarrow>
   \<exists>i'. appendToAccessList op self stk i = Inr i' \<and>
        addressSlotAccessListSet i' = addressSlotAccessListSet i @ [(self, last stk)] \<and>
        appendToAccessList SLOAD self [last stk] i = Inr i'"
  by (simp add: appendToAccessList_def peek_def setPut_def Let_def split: prod.splits)

text \<open>
  Only the first touch of a pair changes the interpreter, and what it does
  depends on the address and the slot alone.
\<close>

lemma runTouches_first:
  "\<forall>ev\<in>set evs. snd (snd ev) \<noteq> [] \<Longrightarrow>
   runTouches evs i =
   runTouches (map (\<lambda>(a, s). (SLOAD, a, [s]))
     (firstTouches (addressSlotAccessListSet i) (map touchKey evs))) i"
proof (induction evs arbitrary: i)
  case Nil show ?case by simp
next
  case (Cons ev evs)
  obtain op self stk where ev: "ev = (op, self, stk)" by (cases ev)
  have ne: "stk \<noteq> []" using Cons.prems ev by simp
  have rest: "\<forall>ev\<in>set evs. snd (snd ev) \<noteq> []" using Cons.prems by simp
  show ?case
  proof (cases "(self, last stk) \<in> set (addressSlotAccessListSet i)")
    case True
    then show ?thesis
      using Cons.IH [OF rest, of i] ne ev
      by (simp add: appendToAccessList_seen touchKey_def)
  next
    case False
    from appendToAccessList_new [OF ne False, of op] obtain i' where
      i': "appendToAccessList op self stk i = Inr i'"
          "addressSlotAccessListSet i' = addressSlotAccessListSet i @ [(self, last stk)]"
          "appendToAccessList SLOAD self [last stk] i = Inr i'" by blast
    show ?thesis
      using Cons.IH [OF rest, of i'] False ev i'
      by (simp add: touchKey_def)
  qed
qed

text \<open>
  C3.  Whenever the storage touches of a run (SLOAD or SSTORE dispatches, in
  any number and with any repetitions), taken in the order of their first
  occurrence, are slot \<open>s1\<close> on address \<open>A\<close>, then \<open>s2\<close> on \<open>A\<close>, then \<open>s1\<close> on
  \<open>B\<close>, the access list a fresh interpreter ends with is exactly
  \<open>[{A: [s1, s2]}, {B: [s1]}]\<close>: each address once, in first-touch order, its
  slots in first-touch order, no pair twice.
\<close>

theorem access_list_first_touch_order:
  assumes "\<forall>ev\<in>set evs. snd (snd ev) \<noteq> []"
    and "firstTouches [] (map touchKey evs) = [(A, s1), (A, s2), (B, s1)]"
  shows "map_sum id accessList (runTouches evs (NewEVMInterpreter None)) =
         Inr [\<lparr>Address = A, StorageKeys = [s1, s2]\<rparr>, \<lparr>Address = B, StorageKeys = [s1]\<rparr>]"
proof -
  have d: "distinct [(A, s1), (A, s2), (B, s1)]"
    using firstTouches_distinct [of "[]" "map touchKey evs"] assms(2) by simp
  then have ne: "s1 \<noteq> s2" "A \<noteq> B" by auto
  have "runTouches evs (NewEVMInterpreter None) =
        runTouches (map (\<lambda>(a, s). (SLOAD, a, [s])) [(A, s1), (A, s2), (B, s1)])
          (NewEVMInterpreter None)"
    using runTouches_first [OF assms(1), of "NewEVMInterpreter None"] assms(2)
    by (simp add: NewEVMInterpreter_def)
  then show ?thesis using ne
    by (simp add: NewEVMInterpreter_def appendToAccessList_def peek_def setPut_def Let_def)
qed

theorem access_list_first_touch_order_witness:
  "[] \<notin> set (map (\<lambda>ev. snd (snd ev)) exampleTouches) \<and>
   firstTouches [] (map touchKey exampleTouches) = [(0x0a, 1), (0x0a, 2), (0x0b, 1)] \<and>
   map_sum id accessList (runTouches exampleTouches (NewEVMInterpreter None)) =
     Inr [\<lparr>Address = 0x0a, StorageKeys = [1, 2]\<rparr>, \<lparr>Address = 0x0b, StorageKeys = [1]\<rparr>]"
proof -
  have h1: "\<forall>ev\<in>set exampleTouches. snd (snd ev) \<noteq> []"
    by (simp add: exampleTouches_def)
  have h2: "firstTouches [] (map touchKey exampleTouches) = [(0x0a, 1), (0x0a, 2), (0x0b, 1)]"
    by (simp add: exampleTouches_def touchKey_def)
  have h0: "[] \<notin> set (map (\<lambda>ev. snd (snd ev)) exampleTouches)"
    by (simp add: exampleTouches_def)
  show ?thesis
    using h0 h2 access_list_first_touch_order [OF h1 h2] by simp
qed

subsection \<open>What the reconstructed state holds\<close>

lemma fold_code_reads:
  "GetCode (fold (\<lambda>acc t. SetCode (CreateAccount t acc) acc (GetCode origin acc)) cs t0) a =
     (if a \<in> set cs then GetCode origin a else GetCode t0 a)"
  "(\<forall>b. GetBalance t0 b = 0) \<Longrightarrow>
   GetBalance (fold (\<lambda>acc t. SetCode (CreateAccount t acc) acc (GetCode origin acc)) cs t0) a = 0"
  "(\<forall>b k. GetState t0 b k = 0) \<Longrightarrow>
   GetState (fold (\<lambda>acc t. SetCode (CreateAccount t acc) acc (GetCode origin acc)) cs t0) a k = 0"
  by (induction cs arbitrary: t0; simp add: read_defs gso_simps emptyAccount_def)+

lemma fold_balance_reads:
  "GetCode (fold (\<lambda>acc t. SetBalance t acc (GetBalance origin acc)) bs t0) a = GetCode t0 a"
  "GetBalance (fold (\<lambda>acc t. SetBalance t acc (GetBalance origin acc)) bs t0) a =
     (if a \<in> set bs then GetBalance origin a else GetBalance t0 a)"
  "GetState (fold (\<lambda>acc t. SetBalance t acc (GetBalance origin acc)) bs t0) a k = GetState t0 a k"
  by (induction bs arbitrary: t0;
      simp add: read_defs gso_simps emptyAccount_def split: option.splits)+

lemma fold_storage_reads:
  "GetCode (fold (\<lambda>((acc, slot), value) t. SetState t acc slot value) ss t0) a = GetCode t0 a"
  "GetBalance (fold (\<lambda>((acc, slot), value) t. SetState t acc slot value) ss t0) a =
     GetBalance t0 a"
  by (induction ss arbitrary: t0;
      simp add: read_defs gso_simps emptyAccount_def split: option.splits prod.splits)+

lemma fold_storage_state:
  "distinct (map fst ss) \<Longrightarrow>
   GetState (fold (\<lambda>((acc, slot), value) t. SetState t acc slot value) ss t0) a k =
     (case map_of ss (a, k) of Some v \<Rightarrow> v | None \<Rightarrow> GetState t0 a k)"
proof (induction ss arbitrary: t0)
  case Nil show ?case by simp
next
  case (Cons x ss)
  obtain b j v where x: "x = ((b, j), v)" by (cases x) auto
  have d: "distinct (map fst ss)" and nin: "(b, j) \<notin> fst ` set ss" using Cons.prems x by auto
  have none: "map_of ss (b, j) = None" using nin by (simp add: map_of_eq_None_iff)
  show ?case
    using Cons.IH [OF d, of "SetState t0 b j v"] x none
    by (auto simp add: read_defs gso_simps emptyAccount_def split: option.splits)
qed

text \<open>
  C1, as the code has it.  The reconstructed state holds, for every address of
  the code set, the code the reference state has for it; for every address of
  the balance set, the balance the reference state has for it; and for every
  (address, slot) of the storage set, the value the record itself stores for
  that pair (the word the remote source answered when the slot was first
  touched), whatever the reference state holds there by now.  Everything else
  reads as empty code, zero balance, zero storage.  (A Go map has each key
  once: the keys of the storage set are distinct.)
\<close>

theorem ideal_state_contents:
  assumes "distinct (map fst (AddressStorageSet r))"
  shows "\<exists>ideal. InitIdealState originState (Some r) = Inr ideal \<and>
     (\<forall>a. GetCode ideal a = (if a \<in> set (AddressCodeSet r) then GetCode originState a else [])) \<and>
     (\<forall>a. GetBalance ideal a =
        (if a \<in> set (AddressBalanceSet r) then GetBalance originState a else 0)) \<and>
     (\<forall>a k. GetState ideal a k =
        (case map_of (AddressStorageSet r) (a, k) of Some v \<Rightarrow> v | None \<Rightarrow> 0))"
proof -
  define tmp where "tmp = \<lparr>trie = EmptyRootHash, objects = (\<lambda>_. None), warmAddresses = [],
    warmSlots = [], refund = 0\<rparr>"
  define tmp1 where "tmp1 =
    fold (\<lambda>acc t. SetCode (CreateAccount t acc) acc (GetCode originState acc)) (AddressCodeSet r) tmp"
  define tmp2 where "tmp2 =
    fold (\<lambda>acc t. SetBalance t acc (GetBalance originState acc)) (AddressBalanceSet r) tmp1"
  define tmp3 where "tmp3 =
    fold (\<lambda>((acc, slot), value) t. SetState t acc slot value) (AddressStorageSet r) tmp2"
  define ideal where "ideal = \<lparr>trie = (\<lambda>a. getStateObject tmp3 a), objects = (\<lambda>_. None),
    warmAddresses = [], warmSlots = [], refund = 0\<rparr>"
  have run: "InitIdealState originState (Some r) = Inr ideal"
    by (simp add: InitIdealState_def stateNew_def Commit_def Let_def ideal_def tmp3_def tmp2_def
        tmp1_def tmp_def)
  have same: "\<And>a. getStateObject ideal a = getStateObject tmp3 a"
    by (simp add: ideal_def getStateObject_def)
  have t0: "\<And>a. GetCode tmp a = []" "\<forall>b. GetBalance tmp b = 0" "\<forall>b k. GetState tmp b k = 0"
    by (simp_all add: tmp_def read_defs getStateObject_def EmptyRootHash_def)
  have code: "GetCode ideal a = (if a \<in> set (AddressCodeSet r) then GetCode originState a else [])"
    for a
  proof -
    have "GetCode ideal a = GetCode tmp3 a" by (simp add: GetCode_def same)
    also have "\<dots> = GetCode tmp1 a"
      by (simp add: tmp3_def tmp2_def fold_storage_reads fold_balance_reads)
    finally show ?thesis by (simp add: tmp1_def fold_code_reads t0)
  qed
  have bal: "GetBalance ideal a =
    (if a \<in> set (AddressBalanceSet r) then GetBalance originState a else 0)" for a
  proof -
    have "GetBalance ideal a = GetBalance tmp3 a" by (simp add: GetBalance_def same)
    also have "\<dots> = GetBalance tmp2 a" by (simp add: tmp3_def fold_storage_reads)
    finally show ?thesis
      using fold_code_reads(2) [OF t0(2)] by (simp add: tmp2_def tmp1_def fold_balance_reads)
  qed
  have sto: "GetState ideal a k =
    (case map_of (AddressStorageSet r) (a, k) of Some v \<Rightarrow> v | None \<Rightarrow> 0)" for a k
  proof -
    have z: "GetState tmp2 a k = 0"
      using fold_code_reads(3) [OF t0(3)] by (simp add: tmp2_def tmp1_def fold_balance_reads)
    have "GetState ideal a k = GetState tmp3 a k" by (simp add: GetState_def same)
    then show ?thesis
      using fold_storage_state [OF assms, of tmp2 a k] z
      by (simp add: tmp3_def split: option.splits)
  qed
  show ?thesis using run code bal sto by blast
qed

theorem ideal_state_contents_witness:
  "distinct (map fst (AddressStorageSet exampleRecord)) \<and>
   (\<exists>ideal. InitIdealState exampleOrigin (Some exampleRecord) = Inr ideal \<and>
      GetCode ideal 0x11 = [0x5f, 0x54] \<and> GetBalance ideal 0x11 = 0 \<and>
      GetState ideal 0x11 0 = 7 \<and> GetState ideal 0x11 1 = 0 \<and> GetCode ideal 0x12 = [])"
proof -
  have h: "distinct (map fst (AddressStorageSet exampleRecord))"
    by (simp add: exampleRecord_def)
  have c: "GetCode exampleOrigin 0x11 = [0x5f, 0x54]"
    by (simp add: exampleOrigin_def read_defs gso_simps)
  from ideal_state_contents [OF h, of exampleOrigin] obtain ideal where
    "InitIdealState exampleOrigin (Some exampleRecord) = Inr ideal"
    "\<forall>a. GetCode ideal a =
       (if a \<in> set (AddressCodeSet exampleRecord) then GetCode exampleOrigin a else [])"
    "\<forall>a. GetBalance ideal a =
       (if a \<in> set (AddressBalanceSet exampleRecord) then GetBalance exampleOrigin a else 0)"
    "\<forall>a k. GetState ideal a k =
       (case map_of (AddressStorageSet exampleRecord) (a, k) of Some v \<Rightarrow> v | None \<Rightarrow> 0)"
    by blast
  then show ?thesis using h c by (simp add: exampleRecord_def)
qed

text \<open>
  The claim as written fails: the reference state holds 9 in slot 0 of
  \<open>0x11\<close>, the record holds 7 for it, and the reconstructed state reads 7.
\<close>

theorem ideal_state_storage_counterexample:
  "map_sum id (\<lambda>ideal. GetState ideal 0x11 0) (InitIdealState exampleOrigin (Some exampleRecord))
     = Inr 7 \<and>
   GetState exampleOrigin 0x11 0 = 9 \<and>
   ((0x11, 0), 7) \<in> set (AddressStorageSet exampleRecord)"
  by (simp add: InitIdealState_def stateNew_def Commit_def Let_def exampleRecord_def
      exampleOrigin_def read_defs gso_simps emptyAccount_def)


subsection \<open>The single simulation: balance check and the two passes\<close>

lemma copyRecord_id [simp]: "copyRecord r = r"
  by (simp add: copyRecord_def)

text \<open>
  C6, as the code has it.  The code of the target is resolved first, and a
  failure of that step ends \<open>Simulate\<close> before the balance is looked at
  (\<open>balance_fetch_skipped_counterexample\<close> below).  Once the code is resolved:
  when the simulation sends a value, the sender has no balance in the
  reference state and the remote node reports a balance that is at most the
  value, \<open>Simulate\<close> fetches that balance and returns the insufficient-balance
  error.  No pass has run: the result is the same for every operation table
  and every iteration bound (even the bound 0), the state store is returned
  as it was, and the log has gained the one balance request.
\<close>

theorem insufficient_balance_before_execution:
  assumes "0 < Value simulation"
    and "GetBalance stateDB (From simulation) = 0"
    and "resolveCode rpcClt simulation stateDB log = (Inr code, log1)"
    and "rpcGetBalance rpcClt (From simulation) (simBlk simulation) = Inr balance"
    and "balance \<le> Value simulation"
  shows "Simulate vm rpcClt fuel simulation stateDB recordInitializer log =
           (Inl InsufficientBalanceToSimulate, stateDB,
            log1 @ [FetchBalance (From simulation) (resolveBlk (simBlk simulation))])"
  using assms by (simp add: Simulate_def)

theorem insufficient_balance_before_execution_witness:
  "0 < Value valueSimulation \<and> GetBalance freshStateDB (From valueSimulation) = 0 \<and>
   resolveCode exampleRemote valueSimulation freshStateDB [] = (Inr twoReadsCode, []) \<and>
   rpcGetBalance exampleRemote (From valueSimulation) (simBlk valueSimulation) = Inr 10 \<and>
   (10 :: int) \<le> Value valueSimulation \<and>
   Simulate (cancun undefinedTable emptyPrecompiled) exampleRemote 0 valueSimulation freshStateDB
     None [] =
     (Inl InsufficientBalanceToSimulate, freshStateDB, [FetchBalance 0 (BlockNumber 1)])"
proof -
  have h1: "0 < Value valueSimulation" by (simp add: valueSimulation_def)
  have h2: "GetBalance freshStateDB (From valueSimulation) = 0" by (simp add: reads)
  have h3: "resolveCode exampleRemote valueSimulation freshStateDB [] = (Inr twoReadsCode, [])"
    by (simp add: resolveCode_def valueSimulation_def twoReadsCode_def)
  have h4: "rpcGetBalance exampleRemote (From valueSimulation) (simBlk valueSimulation) = Inr 10"
    by (simp add: rpcGetBalance_def exampleRemote_def)
  have h5: "(10 :: int) \<le> Value valueSimulation" by (simp add: valueSimulation_def)
  show ?thesis
    using h1 h2 h3 h4 h5
      insufficient_balance_before_execution [OF h1 h2 h3 h4 h5,
        of "cancun undefinedTable emptyPrecompiled" 0 None]
    by (simp add: valueSimulation_def simBlk_def)
qed

text \<open>
  The claim without the resolved code fails: the simulation has no code, the
  state has none for the target, and the remote node fails the code request.
  The value is positive, the sender has no balance and the remote balance is
  not above the value, but \<open>Simulate\<close> returns the error of the code request
  and has asked for no balance.
\<close>

theorem balance_fetch_skipped_counterexample:
  "0 < Value codelessSimulation \<and> GetBalance freshStateDB (From codelessSimulation) = 0 \<and>
   rpcGetBalance deafRemote (From codelessSimulation) (simBlk codelessSimulation) = Inr 10 \<and>
   10 \<le> Value codelessSimulation \<and>
   Simulate (cancun undefinedTable emptyPrecompiled) deafRemote 5 codelessSimulation freshStateDB
     None [] = (Inl NetworkError, freshStateDB, [FetchCode 0x11 (BlockNumber 1)])"
  by (simp add: Simulate_def resolveCode_def codelessSimulation_def deafRemote_def simBlk_def
      rpcGetBalance_def rpcGetCode_def reads GetCodeSize_def)






subsection \<open>The hooks and the stack\<close>

lemma fetch_hooks_check_the_stack:
  "readStorage op \<Longrightarrow> length (stack scope) < 1 \<Longrightarrow>
     preDispatch rpcClt blk op scope w = (Some InsufficientElementsInStack, w)"
  "isCall op \<Longrightarrow> length (stack scope) < 3 \<Longrightarrow>
     preDispatch rpcClt blk op scope w = (Some InsufficientElementsInStack, w)"
  "isExtCode op \<Longrightarrow> length (stack scope) < 1 \<Longrightarrow>
     preDispatch rpcClt blk op scope w = (Some InsufficientElementsInStack, w)"
  by (auto simp add: preDispatch_def readStorage_def isCall_def isExtCode_def
      registerAddressStorage_def registerAddressCodeForCalls_def registerAddressCodeForExt_def
      opcode_defs)

lemma sstore_program_panics:
  "Run (Suc n) tbl rpcClt blk (c\<lparr>Code := [SSTORE]\<rparr>) input w =
     (([], Some RuntimePanic), c\<lparr>Code := [SSTORE], Input := input\<rparr>, w)"
  by (simp add: Run_def dispatch_def GetOp_def dispatchOp_def preDispatch_def readStorage_def
      isCall_def isExtCode_def interactWithStorage_def opcode_defs appendToAccessList_def peek_def)

text \<open>
  C7, at the input where the code departs from it.  SLOAD, the four calls and
  the three external-code reads fail with the hooks' stack error before any
  fetch when the stack is too shallow (\<open>fetch_hooks_check_the_stack\<close>).  An
  SSTORE dispatched on an empty stack does not: no hook checks its stack, and
  \<open>appendToAccessList\<close> peeks at the empty stack, which panics.  The
  iteration ends in a Go panic, not in a stack-underflow error, for every
  operation table.
\<close>

theorem sstore_on_empty_stack_panics:
  "dispatchOp tbl rpcClt blk SSTORE pc (scope\<lparr>stack := []\<rparr>) w =
     Halt ([], Some RuntimePanic) (contract scope) w"
  by (simp add: dispatchOp_def preDispatch_def readStorage_def isCall_def isExtCode_def
      interactWithStorage_def opcode_defs appendToAccessList_def peek_def)

subsection \<open>The call hook and the balance\<close>

lemma call_hook_tops_up_on_first_registration:
  assumes "3 \<le> length stk"
    and "addr = Bytes20 (stk ! (length stk - 2))"
    and "addr \<notin> set (addressCodeSet (interp w))"
    and "addr \<notin> set (addressBalanceSet (interp w))"
    and "op = CALL \<or> op = CALLCODE"
    and "rpcGetCode rpcClt addr blk = Inr code"
    and "GetBalance (StateDB w) addr < stk ! (length stk - 3)"
    and "rpcGetBalance rpcClt addr blk = Inr remote"
    and "0 \<le> remote" "remote < 2 ^ 256"
    and "stk ! (length stk - 3) \<le> word_of_int remote"
  shows "\<exists>w'. registerAddressCodeForCalls rpcClt op stk blk w = (None, w') \<and>
           GetBalance (StateDB w') addr = word_of_int remote \<and>
           addr \<in> set (addressBalanceSet (interp w')) \<and>
           fetches w' =
             fetches w @ [FetchCode addr (resolveBlk blk), FetchBalance addr (resolveBlk blk)]"
proof -
  have ne: "\<not> Exist (StateDB w) addr \<Longrightarrow> GetBalance (StateDB w) addr = 0"
    by (simp add: Exist_def GetBalance_def)
  have m: "MustFromBig remote = Inr (word_of_int remote)"
    using assms(9,10) by (simp add: MustFromBig_def)
  show ?thesis
    using assms m ne
    by (auto simp add: registerAddressCodeForCalls_def Let_def installCode_def logFetch_def
        MarkAddressCode_def MarkAddressBalance_def setPut_def reads AddBalance_def
        simp flip: assms(2))
qed

text \<open>
  C9, at the input where the code departs from it.  The call hook handles the
  balance only on the path that registers the code
  (\<open>call_hook_tops_up_on_first_registration\<close>).  Here a CALL sends 5 to
  \<open>0xbb\<close>, whose local balance is 0 and whose balance was never fetched, and
  the remote node would report 10; but the code of \<open>0xbb\<close> is already
  registered, so the hook returns at once: nothing is fetched, the balance
  stays 0 and the balance set stays empty.
\<close>

theorem call_hook_skips_balance_of_known_code:
  "registerAddressCodeForCalls exampleRemote CALL callStack (HexBlk 1) knownCodeWorld =
     (None, knownCodeWorld) \<and>
   Bytes20 (callStack ! (length callStack - 2)) = 0xbb \<and>
   callStack ! (length callStack - 3) = 5 \<and>
   GetBalance (StateDB knownCodeWorld) 0xbb = 0 \<and>
   0xbb \<notin> set (addressBalanceSet (interp knownCodeWorld)) \<and>
   rpcGetBalance exampleRemote 0xbb (HexBlk 1) = Inr 10"
  by (simp add: registerAddressCodeForCalls_def callStack_def knownCodeWorld_def Bytes20_def
      reads rpcGetBalance_def exampleRemote_def)

subsection \<open>A pass and its loop\<close>




lemma warmSlots_AddBalance [simp]: "warmSlots (AddBalance s a d) = warmSlots s"
  by (simp add: AddBalance_def)

lemma warmSlots_SubBalance [simp]: "warmSlots (SubBalance s a d) = warmSlots s"
  by (simp add: SubBalance_def)















lemma preDispatch_scope_gas:
  "preDispatch rpcClt blk op scope w = (None, w1) \<Longrightarrow> interactWithStorage op \<Longrightarrow> stack scope \<noteq> []"
  by (auto simp add: preDispatch_def appendToAccessList_def peek_def
      split: prod.splits option.splits sum.splits if_splits)






















subsection \<open>Scenarios of the two passes\<close>

lemma bundle_pass2_commits_and_reopens:
  assumes "unoptimalSimulation vm rpcClt fuel simulation stateDB (Some (r\<lparr>AccessList := al\<rparr>)) log =
             (Inr simResult, stateDB1, log1)"
  shows "\<exists>stateDB2.
           bundlePass2 vm rpcClt fuel ((simulation, al) # rest) stateDB (Some r) results log =
             bundlePass2 vm rpcClt fuel rest stateDB2 (Some (Record simResult))
               (patchLast al results @ [simResult]) log1 \<and>
           trie stateDB2 = getStateObject stateDB1 \<and> objects stateDB2 = (\<lambda>a. None) \<and>
           warmSlots stateDB2 = [] \<and>
           (\<forall>a k. GetCommittedState stateDB2 a k = GetState stateDB1 a k) \<and>
           (\<forall>a k. GetState stateDB2 a k = GetState stateDB1 a k)"
proof -
  let ?s2 = "\<lparr>trie = getStateObject stateDB1, objects = (\<lambda>a. None), warmAddresses = [],
              warmSlots = [], refund = 0\<rparr>"
  have "bundlePass2 vm rpcClt fuel ((simulation, al) # rest) stateDB (Some r) results log =
          bundlePass2 vm rpcClt fuel rest ?s2 (Some (Record simResult))
            (patchLast al results @ [simResult]) log1"
    using assms by (simp add: Commit_def stateNew_def)
  moreover have "\<forall>a k. GetCommittedState ?s2 a k = GetState stateDB1 a k"
    by (simp add: GetCommittedState_def GetState_def)
  moreover have "\<forall>a k. GetState ?s2 a k = GetState stateDB1 a k"
    by (simp add: GetState_def getStateObject_def)
  ultimately show ?thesis
    by (intro exI [of _ ?s2]) simp
qed

text \<open>
  C5, as the code has it.  The bundle of the repository's test, on an empty
  reference state with no prior record, when the remote node reports zero
  for slot 0 of the contract (the one fact the bundle fetches; the results
  are offset by whatever it reports, see the counterexample below): with any
  iteration bound of at least 14, the number of operations of the program,
  the three results return the 32-byte words 1, 3 and 6, in this order.
  Every transaction of the second pass runs on the store committed and
  reopened after the one before it (\<open>bundle_pass2_commits_and_reopens\<close>), and
  the gas shows it: the first write is charged as the setting of a slot
  whose committed value is zero, the second and the third as the reset of a
  slot whose committed value is the nonzero value the transaction finds in
  it, that is, the value the previous transaction wrote; a write over an
  uncommitted value would be charged the warm read cost.  (The operations
  the program does not use and the precompiled contracts are arbitrary.)
\<close>

theorem bundle_outputs_1_3_6:
  assumes "14 \<le> fuel"
    and "eth_getStorageAt rpcClt 0x11 0 (BlockNumber 1) = Inr 0"
  shows "map_sum id (map (\<lambda>r. (ReturnedData r, GasUsed r)))
           (fst (SimulateBundle (cancun other precompiled) rpcClt fuel
                   [bundleSimulation 1, bundleSimulation 2, bundleSimulation 3]
                   freshStateDB None [])) =
         Inr [(word32 1, bundleGas SstoreSetGasEIP2200),
              (word32 3, bundleGas (SstoreResetGasEIP2200 - ColdSloadCostEIP2929)),
              (word32 6, bundleGas (SstoreResetGasEIP2200 - ColdSloadCostEIP2929))]"
proof -
  obtain k where k: "fuel = 14 + k"
    using assms(1) by (metis le_Suc_ex)
  have "map_sum id (map (\<lambda>r. (ReturnedData r, GasUsed r)))
           (fst (SimulateBundle (cancun other precompiled) rpcClt (14 + k)
                   [bundleSimulation 1, bundleSimulation 2, bundleSimulation 3]
                   freshStateDB None [])) =
         Inr [(wordToBytes 1, 45667), (wordToBytes 3, 28567), (wordToBytes 6, 28567)]"
    using assms(2)
    by (simp cong: let_weak_cong old.prod.case_cong_weak add: eval_simps)
  then show ?thesis by (simp add: k wordToBytes_word32 bundleGas_def gas_defs)
qed

theorem bundle_outputs_1_3_6_witness:
  "(14 :: nat) \<le> 14 \<and> eth_getStorageAt exampleRemote 0x11 0 (BlockNumber 1) = Inr 0 \<and>
   map_sum id (map (\<lambda>r. (ReturnedData r, GasUsed r)))
     (fst (SimulateBundle (cancun undefinedTable emptyPrecompiled) exampleRemote 14
             [bundleSimulation 1, bundleSimulation 2, bundleSimulation 3] freshStateDB None [])) =
   Inr [(word32 1, 45667), (word32 3, 28567), (word32 6, 28567)]"
proof -
  have h: "eth_getStorageAt exampleRemote 0x11 0 (BlockNumber 1) = Inr 0"
    by (simp add: exampleRemote_def)
  show ?thesis
    using h bundle_outputs_1_3_6 [OF order_refl h, of undefinedTable emptyPrecompiled]
    by (simp add: bundleGas_def gas_defs)
qed

text \<open>
  The claim without the value of the slot fails: on a remote node that
  reports 5 for the slot, the same bundle returns 6, 8 and 11.
\<close>

theorem bundle_outputs_counterexample:
  "map_sum id (map ReturnedData)
     (fst (SimulateBundle (cancun undefinedTable emptyPrecompiled) fiveRemote 14
             [bundleSimulation 1, bundleSimulation 2, bundleSimulation 3] freshStateDB None [])) =
   Inr [word32 6, word32 8, word32 11] \<and>
   [word32 6, word32 8, word32 11] \<noteq> [word32 1, word32 3, word32 6]"
proof -
  have "map_sum id (map ReturnedData)
     (fst (SimulateBundle (cancun undefinedTable emptyPrecompiled) fiveRemote (14 + 0)
             [bundleSimulation 1, bundleSimulation 2, bundleSimulation 3] freshStateDB None [])) =
   Inr [wordToBytes 6, wordToBytes 8, wordToBytes 11]"
    by (simp cong: let_weak_cong old.prod.case_cong_weak add: eval_simps fiveRemote_def)
  then have "map_sum id (map ReturnedData)
     (fst (SimulateBundle (cancun undefinedTable emptyPrecompiled) fiveRemote 14
             [bundleSimulation 1, bundleSimulation 2, bundleSimulation 3] freshStateDB None [])) =
   Inr [word32 6, word32 8, word32 11]"
    by (simp add: wordToBytes_word32)
  moreover have "[word32 6, word32 8, word32 11] \<noteq> [word32 1, word32 3, word32 6]"
    by (simp add: word32_def)
  ultimately show ?thesis by simp
qed

lemma first_pass_read_is_cold:
  assumes "5 \<le> fuel"
    and "eth_getStorageAt rpcClt 0x11 0 (BlockNumber 1) = Inr v"
  shows "map_sum id GasUsed
           (fst (unoptimalSimulation (cancun other precompiled) rpcClt fuel twoReadsSimulation
                   freshStateDB None [])) =
         Inr (TxGas + TxAccessListAddressGas + TxAccessListStorageKeyGas
              + (GasQuickStep + ColdSloadCostEIP2929)
              + (GasQuickStep + WarmStorageReadCostEIP2929))"
proof -
  obtain k where k: "fuel = 5 + k"
    using assms(1) by (metis le_Suc_ex)
  show ?thesis
    unfolding k using assms(2)
    by (simp cong: let_weak_cong old.prod.case_cong_weak add: eval_simps)
qed

lemma two_reads_second_pass_gas:
  assumes "5 \<le> fuel"
    and "eth_getStorageAt rpcClt 0x11 0 (BlockNumber 1) = Inr v"
  shows "map_sum id GasUsed
           (fst (Simulate (cancun other precompiled) rpcClt fuel twoReadsSimulation
                   freshStateDB None [])) =
         Inr (TxGas + TxAccessListAddressGas + TxAccessListStorageKeyGas
              + (GasQuickStep + WarmStorageReadCostEIP2929)
              + (GasQuickStep + WarmStorageReadCostEIP2929))"
proof -
  obtain k where k: "fuel = 5 + k"
    using assms(1) by (metis le_Suc_ex)
  show ?thesis
    unfolding k using assms(2)
    by (simp cong: let_weak_cong old.prod.case_cong_weak add: eval_simps)
qed










end
